theory Spec2Isabelle
  imports Complex_Main "HOL-Library.Product_Lexorder" "HOL-Library.Log_Nat"
begin

section \<open>JavaScript strings\<close>

text \<open>
  A JavaScript string is a sequence of UTF-16 code units; \<open>length\<close>, \<open>startsWith\<close>,
  \<open>substring\<close> and a regular expression without the \<open>u\<close> flag all work on code units.
  A string is modelled as the list of its code units, each a natural number.
  \<open>str\<close> turns an ASCII literal of the source into that list.
\<close>

type_synonym jsstring = "nat list"

definition str :: "string \<Rightarrow> jsstring" where
  "str s = map of_char s"

text \<open>\<open>\d\<close>: the ASCII digits.\<close>

definition isDigit :: "nat \<Rightarrow> bool" where
  "isDigit c = (48 \<le> c \<and> c \<le> 57)"

text \<open>\<open>s.startsWith(p)\<close>.\<close>

definition startsWith :: "jsstring \<Rightarrow> jsstring \<Rightarrow> bool" where
  "startsWith s p = (take (length p) s = p)"

text \<open>\<open>s.substring(a, b)\<close>: the indices are clamped to the length and swapped when
  \<open>a > b\<close>.\<close>

definition substring :: "jsstring \<Rightarrow> nat \<Rightarrow> nat \<Rightarrow> jsstring" where
  "substring s a b = take (max a b - min a b) (drop (min a b) s)"

text \<open>\<open>s.replace(/\D/g, '')\<close>.\<close>

definition digitsOnly :: "jsstring \<Rightarrow> jsstring" where
  "digitsOnly s = filter isDigit s"

text \<open>\<open>s.replace(/[^\d+]/g, '')\<close>: every code unit that is neither a digit nor \<open>+\<close>
  (code unit 43) is removed, wherever it stands.\<close>

definition keepDigitsPlus :: "jsstring \<Rightarrow> jsstring" where
  "keepDigitsPlus s = filter (\<lambda>c. isDigit c \<or> c = 43) s"

section \<open>Phone validation (sms-validation.service.ts, geo.middleware.ts)\<close>

record NetworkInfo =
  ni_country :: "jsstring option"
  ni_network :: "jsstring option"
  ni_operator :: "jsstring option"

definition netinfo :: "string \<Rightarrow> string \<Rightarrow> string \<Rightarrow> NetworkInfo" where
  "netinfo c n ope = \<lparr>ni_country = Some (str c), ni_network = Some (str n), ni_operator = Some (str ope)\<rparr>"

text \<open>\<open>detectNetwork\<close> of the geo middleware: the prefix tables, in the source's order.\<close>

definition detectNetwork :: "jsstring \<Rightarrow> NetworkInfo" where
  "detectNetwork phone =
    (let cleaned = digitsOnly phone;
         gh = startsWith cleaned (str ''233''); p2 = substring cleaned 3 5;
         ng = startsWith cleaned (str ''234''); p3 = substring cleaned 3 6;
         ke = startsWith cleaned (str ''254'');
         za = startsWith cleaned (str ''27''); pz = substring cleaned 2 4
     in if gh \<and> p2 \<in> set (map str [''20'', ''50'', ''23'', ''28''])
          then netinfo ''GH'' ''telecel'' ''Telecel Ghana''
        else if gh \<and> p2 \<in> set (map str [''24'', ''54'', ''55'', ''53'', ''23'', ''59''])
          then netinfo ''GH'' ''mtn'' ''MTN Ghana''
        else if gh \<and> p2 \<in> set (map str [''26'', ''56'', ''27'', ''57''])
          then netinfo ''GH'' ''airteltigo'' ''AirtelTigo''
        else if ng \<and> p3 \<in> set (map str [''803'', ''806'', ''810'', ''813'', ''816'', ''903'', ''906''])
          then netinfo ''NG'' ''mtn'' ''MTN Nigeria''
        else if ng \<and> p3 \<in> set (map str [''805'', ''807'', ''811'', ''815'', ''905''])
          then netinfo ''NG'' ''glo'' ''Globacom''
        else if ng \<and> p3 \<in> set (map str [''802'', ''808'', ''812'', ''902'', ''907'', ''901''])
          then netinfo ''NG'' ''airtel'' ''Airtel Nigeria''
        else if ng \<and> p3 \<in> set (map str [''809'', ''817'', ''818'', ''909''])
          then netinfo ''NG'' ''9mobile'' ''9mobile''
        else if ke \<and> p3 \<in> set (map str [''701'', ''702'', ''703'', ''704'', ''705'', ''706'', ''707'', ''708'', ''709''])
          then netinfo ''KE'' ''safaricom'' ''Safaricom''
        else if ke \<and> p3 \<in> set (map str [''710'', ''711'', ''712'', ''713'', ''714'', ''715''])
          then netinfo ''KE'' ''airtel'' ''Airtel Kenya''
        else if ke \<and> p3 \<in> set (map str [''770'', ''771'', ''772'', ''773'', ''774'', ''775''])
          then netinfo ''KE'' ''telkom'' ''Telkom Kenya''
        else if za \<and> pz \<in> set (map str [''82'', ''83'', ''84''])
          then netinfo ''ZA'' ''vodacom'' ''Vodacom''
        else if za \<and> pz \<in> set (map str [''71'', ''72'', ''73'', ''74'', ''76'', ''78''])
          then netinfo ''ZA'' ''mtn'' ''MTN South Africa''
        else if za \<and> pz \<in> set (map str [''81'', ''84''])
          then netinfo ''ZA'' ''cellc'' ''Cell C''
        else \<lparr>ni_country = None, ni_network = None, ni_operator = None\<rparr>)"

record SMSValidationResult =
  valid :: bool
  phone :: jsstring
  formatted :: jsstring
  country :: "jsstring option"
  countryCode :: jsstring
  network :: "jsstring option"
  operator :: "jsstring option"
  errors :: "string list option"

text \<open>
  \<open>SMSValidationService.validatePhoneNumber\<close>. The two checks push their messages onto
  \<open>errors\<close> in this order; \<open>valid\<close> is \<open>errors.length === 0\<close>. The warning logged for a
  number outside the African calling codes changes no result and is left out, as is the
  constant field \<open>type: 'mobile'\<close>.
\<close>

definition validatePhoneNumber :: "jsstring \<Rightarrow> SMSValidationResult" where
  "validatePhoneNumber ph =
    (let cleaned = keepDigitsPlus ph;
         errs = (if \<not> startsWith cleaned (str ''+'')
                 then [''Phone number must start with + and country code''] else [])
              @ (if length cleaned < 10 \<or> length cleaned > 16
                 then [''Phone number must be between 10 and 15 digits''] else []);
         networkInfo = detectNetwork cleaned
     in \<lparr>valid = (length errs = 0),
         phone = ph,
         formatted = cleaned,
         country = ni_country networkInfo,
         countryCode = substring cleaned 0 (if length cleaned \<ge> 4 then 4 else 3),
         network = ni_network networkInfo,
         operator = ni_operator networkInfo,
         errors = (if length errs > 0 then Some errs else None)\<rparr>)"

section \<open>Message units (sms-validation.service.ts)\<close>

datatype encoding = GSM7 | UCS2

record MessageUnits =
  messageLength :: nat
  units :: nat
  encoding :: encoding
  charactersPerUnit :: nat

text \<open>
  The character class of the regular expression \<open>gsm7chars\<close>, code unit by code unit in the
  order of the source line. The file's bytes between U+00D1 (209) and U+00BF (191) are
  \<open>DC A7\<close>, which is the UTF-8 encoding of the single code point U+0727 (1831), not of
  U+00DC (220) followed by U+00A7 (167); the class also lists U+00A8 (168) and U+00AC (172).
\<close>

definition gsm7class :: "nat \<Rightarrow> bool" where
  "gsm7class c =
    (c \<in> set [64, 163, 36, 165, 232, 233, 249, 236, 242, 199, 10, 216, 248, 13, 197, 229,
               916, 95, 934, 915, 923, 937, 928, 936, 931, 920, 926, 198, 230, 223, 201,
               32, 33, 34, 35, 164, 37, 38, 39, 40, 41, 42, 43, 44, 45, 46, 47]
     \<or> (48 \<le> c \<and> c \<le> 57)
     \<or> c \<in> set [58, 59, 60, 61, 62, 63, 161]
     \<or> (65 \<le> c \<and> c \<le> 90)
     \<or> c \<in> set [168, 196, 214, 209, 1831, 191]
     \<or> (97 \<le> c \<and> c \<le> 122)
     \<or> c \<in> set [172, 228, 246, 241, 252, 224])"

text \<open>\<open>gsm7chars.test(message)\<close> for the pattern \<open>^[class]*$\<close>: every code unit is in the class.\<close>

definition gsm7chars_test :: "jsstring \<Rightarrow> bool" where
  "gsm7chars_test message = list_all gsm7class message"

text \<open>\<open>Math.ceil(n / d)\<close> on a length and a positive divisor.\<close>

definition ceilDiv :: "nat \<Rightarrow> nat \<Rightarrow> nat" where
  "ceilDiv n d = (n + d - 1) div d"

definition calculateMessageUnits :: "jsstring \<Rightarrow> MessageUnits" where
  "calculateMessageUnits message =
    (let len = length message;
         enc = (if \<not> gsm7chars_test message then UCS2 else GSM7);
         cpu0 = (if \<not> gsm7chars_test message then 70 else 160)
     in if len = 0 then
          \<lparr>messageLength = len, units = 0, encoding = enc, charactersPerUnit = cpu0\<rparr>
        else if enc = GSM7 then
          (if len \<le> 160
           then \<lparr>messageLength = len, units = 1, encoding = enc, charactersPerUnit = cpu0\<rparr>
           else \<lparr>messageLength = len, units = ceilDiv len 153, encoding = enc, charactersPerUnit = 153\<rparr>)
        else
          (if len \<le> 70
           then \<lparr>messageLength = len, units = 1, encoding = enc, charactersPerUnit = cpu0\<rparr>
           else \<lparr>messageLength = len, units = ceilDiv len 67, encoding = enc, charactersPerUnit = 67\<rparr>))"

section \<open>OTP codes (otp.service.ts)\<close>

datatype PinType = NUMERIC | ALPHANUMERIC | ALPHABETIC

text \<open>\<open>s.charAt(i)\<close>: the empty string when \<open>i\<close> is out of range.\<close>

definition charAt :: "jsstring \<Rightarrow> int \<Rightarrow> jsstring" where
  "charAt s i = (if 0 \<le> i \<and> i < int (length s) then [s ! nat i] else [])"

definition pinCharacters :: "PinType \<Rightarrow> jsstring" where
  "pinCharacters t =
    (case t of
       NUMERIC \<Rightarrow> str ''0123456789''
     | ALPHANUMERIC \<Rightarrow> str ''0123456789ABCDEFGHIJKLMNOPQRSTUVWXYZ''
     | ALPHABETIC \<Rightarrow> str ''ABCDEFGHIJKLMNOPQRSTUVWXYZ'')"

text \<open>
  \<open>OTPService.generateCode\<close>. The source draws every index as
  \<open>Math.floor(Math.random() * charactersLength)\<close>; \<open>rnd i\<close> is the number that the
  \<open>i\<close>-th call of \<open>Math.random()\<close> returns, and the loop appends one \<open>charAt\<close> per round.
  The product is taken exactly (the rounding of the floating-point product is left out).
\<close>

definition generateCode :: "(nat \<Rightarrow> rat) \<Rightarrow> nat \<Rightarrow> PinType \<Rightarrow> jsstring" where
  "generateCode rnd len t =
    (let characters = pinCharacters t;
         charactersLength = length characters
     in fold (\<lambda>i code. code @ charAt characters \<lfloor>rnd i * of_nat charactersLength\<rfloor>) [0..<len] [])"

text \<open>
  The platform functions the OTP services call: \<open>Bun.password.hash\<close> (bcrypt),
  \<open>Bun.password.verify\<close> as \<open>OTPService.verifyCode\<close> wraps it (false when it throws),
  and \<open>String.prototype.toUpperCase\<close>. They are parameters of the model.
\<close>

record runtime =
  hashCode :: "jsstring \<Rightarrow> jsstring"
  verifyCode :: "jsstring \<Rightarrow> jsstring \<Rightarrow> bool"
  toUpperCase :: "jsstring \<Rightarrow> jsstring"

datatype duration = Seconds | Minutes | Hours

text \<open>\<open>OTPService.calculateExpiry\<close>, in milliseconds since the epoch; \<open>now\<close> is the clock.\<close>

definition calculateExpiry :: "int \<Rightarrow> int \<Rightarrow> duration \<Rightarrow> int" where
  "calculateExpiry now amount d =
    now + (case d of Seconds \<Rightarrow> amount * 1000
                   | Minutes \<Rightarrow> amount * 60 * 1000
                   | Hours \<Rightarrow> amount * 60 * 60 * 1000)"

text \<open>\<open>OTPService.isExpired\<close>: \<open>new Date() > expiresAt\<close>.\<close>

definition isExpired :: "int \<Rightarrow> int \<Rightarrow> bool" where
  "isExpired now expAt = (now > expAt)"

text \<open>The table \<open>africanCountries\<close> of \<open>normalizePhoneNumber\<close>: calling code and local length.\<close>

definition africanCountries :: "(jsstring \<times> nat) list" where
  "africanCountries =
    [(str ''233'', 10), (str ''234'', 11), (str ''254'', 10), (str ''27'', 10),
     (str ''256'', 10), (str ''255'', 10), (str ''250'', 10), (str ''225'', 10),
     (str ''221'', 9), (str ''237'', 9), (str ''20'', 11), (str ''212'', 10),
     (str ''213'', 10), (str ''251'', 10)]"

text \<open>\<open>OTPService.normalizePhoneNumber\<close>: each loop returns at its first match.\<close>

definition normalizePhoneNumber :: "jsstring \<Rightarrow> jsstring" where
  "normalizePhoneNumber ph =
    (let cleaned = keepDigitsPlus ph
     in if startsWith cleaned (str ''+'') then cleaned
        else
          (case (if startsWith cleaned (str ''0'')
                 then find (\<lambda>(code, len). length cleaned = len) africanCountries
                 else None) of
             Some (code, len) \<Rightarrow> str ''+'' @ code @ drop 1 cleaned
           | None \<Rightarrow>
              (case find (\<lambda>(code, len). startsWith cleaned code) africanCountries of
                 Some (code, len) \<Rightarrow> str ''+'' @ cleaned
               | None \<Rightarrow>
                  if length cleaned \<ge> 9 \<and> \<not> startsWith cleaned (str ''+'')
                  then str ''+'' @ cleaned
                  else cleaned)))"

section \<open>The OTP store (verification-storage.service.ts)\<close>

datatype OTPStatus = PENDING | VERIFIED | FAILED | EXPIRED

text \<open>
  A row of the table \<open>otpMessage\<close>, with the columns that \<open>storeOTP\<close> writes and the
  services read. The table is the list of its rows in the order of their creation, and
  a row's \<open>id\<close> is its position in the list, so that ids are unique as the database's are.
  Times are milliseconds since the epoch. \<open>createdAt\<close> is not passed by \<open>storeOTP\<close>: the
  database sets it to the time of the insertion.

  Every function of the store reaches the table through the object \<open>prisma\<close> that it
  imports. The argument \<open>answers\<close> of a call tells whether that object answers the call's
  statements (true) or each of them throws (false). Two functions of the store catch the
  exception and go on: \<open>getActiveOTP\<close> returns \<open>null\<close> and \<open>checkRateLimit\<close> allows the
  send. The others rethrow it, and so does the service that called them. The calls of
  the services run one after the other.
\<close>

record otpMessage =
  accountId :: jsstring
  recipient :: jsstring
  codeHash :: jsstring
  codeLength :: nat
  status :: OTPStatus
  expiresAt :: int
  maxAttempts :: nat
  attempts :: nat
  senderId :: jsstring
  senderName :: jsstring
  createdAt :: int
  verifiedAt :: "int option"

type_synonym otpTable = "otpMessage list"

text \<open>
  \<open>findFirst\<close> with \<open>orderBy: {key: 'desc'}\<close>: among the rows that satisfy \<open>where\<close>, one
  with the greatest key, together with its id. Among rows of equal key the source leaves
  the choice to the database; the model takes the one created first.
\<close>

definition findFirstDesc :: "('r \<Rightarrow> int) \<Rightarrow> ('r \<Rightarrow> bool) \<Rightarrow> 'r list \<Rightarrow> (nat \<times> 'r) option" where
  "findFirstDesc key wh rows =
    (case filter (\<lambda>(i, r). wh r) (enumerate 0 rows) of
       [] \<Rightarrow> None
     | c # cs \<Rightarrow> Some (fold (\<lambda>x best. if key (snd x) > key (snd best) then x else best) cs c))"

text \<open>The argument of \<open>storeOTP\<close> (\<open>OTPStorageData\<close> without the fields it omits); the
  fields \<open>pinType\<close>, \<open>message\<close> and \<open>createdAt\<close> are passed by the callers and never
  written to the table.\<close>

record OTPStorageData =
  sd_id :: jsstring
  sd_phone :: jsstring
  sd_codeHash :: jsstring
  sd_expiresAt :: int
  sd_maxAttempts :: nat
  sd_status :: OTPStatus
  sd_pinLength :: nat
  sd_pinType :: PinType
  sd_senderId :: jsstring

text \<open>\<open>data.id.split('_')[0]\<close>: the part of the string before its first underscore (95).\<close>

definition splitFirst :: "jsstring \<Rightarrow> jsstring" where
  "splitFirst s = takeWhile (\<lambda>c. c \<noteq> 95) s"

text \<open>\<open>storeOTP\<close>: returns the new row's id and the table with the row appended.\<close>

definition storeOTP :: "otpTable \<Rightarrow> int \<Rightarrow> OTPStorageData \<Rightarrow> nat \<times> otpTable" where
  "storeOTP tbl now d =
    (length tbl,
     tbl @ [\<lparr>accountId = splitFirst (sd_id d),
              recipient = sd_phone d,
              codeHash = sd_codeHash d,
              codeLength = sd_pinLength d,
              status = sd_status d,
              expiresAt = sd_expiresAt d,
              maxAttempts = sd_maxAttempts d,
              attempts = 0,
              senderId = sd_senderId d,
              senderName = sd_senderId d,
              createdAt = now,
              verifiedAt = None\<rparr>])"

text \<open>
  \<open>getActiveOTP\<close>: the newest PENDING row of the pair whose expiry is after \<open>now\<close>, and
  \<open>null\<close> when there is none. When the query throws, the \<open>catch\<close> branch returns \<open>null\<close>
  as well.
\<close>

definition getActiveOTP :: "bool \<Rightarrow> otpTable \<Rightarrow> jsstring \<Rightarrow> jsstring \<Rightarrow> int \<Rightarrow> (nat \<times> otpMessage) option" where
  "getActiveOTP answers tbl acc ph now =
    (if answers
     then findFirstDesc createdAt
            (\<lambda>r. accountId r = acc \<and> recipient r = ph \<and> status r = PENDING \<and> expiresAt r > now) tbl
     else None)"

text \<open>\<open>update({where: {id}, data})\<close> on the table; the services pass the id of a row they
  have just read or created.\<close>

definition updateRow :: "otpTable \<Rightarrow> nat \<Rightarrow> (otpMessage \<Rightarrow> otpMessage) \<Rightarrow> otpTable" where
  "updateRow tbl i f = tbl[i := f (tbl ! i)]"

definition incrementAttempts :: "otpTable \<Rightarrow> nat \<Rightarrow> otpTable \<times> nat" where
  "incrementAttempts tbl i =
    (let tbl' = updateRow tbl i (\<lambda>r. r\<lparr>attempts := attempts r + 1\<rparr>)
     in (tbl', attempts (tbl' ! i)))"

definition markAsVerified :: "otpTable \<Rightarrow> nat \<Rightarrow> int \<Rightarrow> otpTable" where
  "markAsVerified tbl i now = updateRow tbl i (\<lambda>r. r\<lparr>status := VERIFIED, verifiedAt := Some now\<rparr>)"

definition markAsFailed :: "otpTable \<Rightarrow> nat \<Rightarrow> otpTable" where
  "markAsFailed tbl i = updateRow tbl i (\<lambda>r. r\<lparr>status := FAILED\<rparr>)"

definition markAsExpired :: "otpTable \<Rightarrow> nat \<Rightarrow> otpTable" where
  "markAsExpired tbl i = updateRow tbl i (\<lambda>r. r\<lparr>status := EXPIRED\<rparr>)"

text \<open>\<open>invalidatePendingOTPs\<close>: \<open>updateMany\<close> over the PENDING rows of the pair.\<close>

definition invalidatePendingOTPs :: "otpTable \<Rightarrow> jsstring \<Rightarrow> jsstring \<Rightarrow> otpTable" where
  "invalidatePendingOTPs tbl acc ph =
    map (\<lambda>r. if accountId r = acc \<and> recipient r = ph \<and> status r = PENDING
              then r\<lparr>status := EXPIRED\<rparr> else r) tbl"

text \<open>\<open>checkRateLimit\<close>: \<open>None\<close> when the caller may send, else the seconds left to wait
  (\<open>Math.ceil(remainingMs / 1000)\<close>). When the query throws, the \<open>catch\<close> branch lets the
  caller send.\<close>

definition checkRateLimit :: "bool \<Rightarrow> otpTable \<Rightarrow> jsstring \<Rightarrow> jsstring \<Rightarrow> int \<Rightarrow> int \<Rightarrow> int option" where
  "checkRateLimit answers tbl acc ph cooldownSeconds now =
    (if \<not> answers then None
     else
       (case findFirstDesc createdAt (\<lambda>r. accountId r = acc \<and> recipient r = ph) tbl of
          None \<Rightarrow> None
        | Some (i, lastOTP) \<Rightarrow>
           (let cooldownMs = cooldownSeconds * 1000;
                elapsed = now - createdAt lastOTP
            in if elapsed < cooldownMs then Some (- ((- (cooldownMs - elapsed)) div 1000)) else None)))"

section \<open>The verification service (verification.service.ts)\<close>

text \<open>A row of the table \<open>senderId\<close>; \<open>sid_approved\<close> is \<open>status = 'APPROVED'\<close>.\<close>

record senderIdRow =
  sid_id :: jsstring
  sid_accountId :: jsstring
  sid_name :: jsstring
  sid_approved :: bool
  sid_isActive :: bool
  sid_isDefault :: bool

text \<open>
  \<open>VerificationService.resolveSenderId\<close>: the requested name when the account owns it
  approved and active, else the account's default, else any approved one, else the
  brand name. The result is the pair of \<open>id\<close> and \<open>name\<close>.
\<close>

definition resolveSenderId :: "senderIdRow list \<Rightarrow> jsstring \<Rightarrow> jsstring option \<Rightarrow> jsstring \<times> jsstring" where
  "resolveSenderId senders acc requestedSenderId =
    (case (case requestedSenderId of
             None \<Rightarrow> None
           | Some n \<Rightarrow> if n = [] then None
                      else find (\<lambda>s. sid_accountId s = acc \<and> sid_name s = n
                                       \<and> sid_approved s \<and> sid_isActive s) senders) of
       Some s \<Rightarrow> (sid_id s, sid_name s)
     | None \<Rightarrow>
        (case find (\<lambda>s. sid_accountId s = acc \<and> sid_approved s \<and> sid_isActive s
                         \<and> sid_isDefault s) senders of
           Some s \<Rightarrow> (sid_id s, sid_name s)
         | None \<Rightarrow>
            (case find (\<lambda>s. sid_accountId s = acc \<and> sid_approved s \<and> sid_isActive s) senders of
               Some s \<Rightarrow> (sid_id s, sid_name s)
             | None \<Rightarrow> (str ''default'', str ''AfriCom''))))"

text \<open>\<open>v || d\<close> on an optional number: the default stands in for \<open>undefined\<close> and for 0.\<close>

definition numOr :: "nat option \<Rightarrow> nat \<Rightarrow> nat" where
  "numOr v d = (case v of None \<Rightarrow> d | Some n \<Rightarrow> if n = 0 then d else n)"

text \<open>\<open>OTPRequest\<close>, without the message template and the metadata, which only shape the
  text of the SMS.\<close>

record OTPRequest =
  rq_phone :: jsstring
  rq_from :: "jsstring option"
  rq_pinLength :: "nat option"
  rq_pinType :: "PinType option"
  rq_expiry :: "(int \<times> duration) option"
  rq_maxAttempts :: "nat option"

text \<open>What is handed to \<open>SMSService.sendSMS\<close>: the recipient, the sender name and the
  code that the message text carries.\<close>

record otpSMS =
  sms_to :: jsstring
  sms_senderId :: jsstring
  sms_code :: jsstring

text \<open>The errors that \<open>requestOTP\<close> and \<open>resendOTP\<close> throw: the three they raise
  themselves, and the exception of a statement on the table, which they rethrow.\<close>

datatype otpError = RateLimited int | NoPreviousOTP | SendFailed | StatementThrew

record OTPResponse =
  rs_id :: nat
  rs_phone :: jsstring
  rs_from :: jsstring
  rs_expiresAt :: int

text \<open>
  \<open>VerificationService.requestOTP\<close>. \<open>now\<close> is the clock of the call, \<open>rnd\<close> the draws of
  \<open>Math.random\<close>, \<open>smsOk\<close> tells whether \<open>SMSService.sendSMS\<close> returned (true) or
  threw (false), and \<open>answers\<close> whether the statements on the table are answered. The
  result is the table after the call, the SMS handed over if any, and the response or
  the error thrown. When the statements throw, \<open>checkRateLimit\<close> lets the call pass and
  \<open>invalidatePendingOTPs\<close>, the first statement after it, ends the call.
\<close>

definition requestOTP ::
  "runtime \<Rightarrow> senderIdRow list \<Rightarrow> (nat \<Rightarrow> rat) \<Rightarrow> bool \<Rightarrow> bool \<Rightarrow> otpTable \<Rightarrow> jsstring \<Rightarrow> OTPRequest \<Rightarrow> int
   \<Rightarrow> otpTable \<times> otpSMS option \<times> (otpError + OTPResponse)" where
  "requestOTP rt senders rnd smsOk answers tbl acc request now =
    (let ph = normalizePhoneNumber (rq_phone request)
     in case checkRateLimit answers tbl acc ph 30 now of
          Some remainingSeconds \<Rightarrow> (tbl, None, Inl (RateLimited remainingSeconds))
        | None \<Rightarrow>
           if \<not> answers then (tbl, None, Inl StatementThrew)
           else
           (let tbl1 = invalidatePendingOTPs tbl acc ph;
                code = generateCode rnd (numOr (rq_pinLength request) 6)
                         (case rq_pinType request of None \<Rightarrow> NUMERIC | Some t \<Rightarrow> t);
                hash = hashCode rt code;
                expiry = (case rq_expiry request of None \<Rightarrow> (10, Minutes) | Some e \<Rightarrow> e);
                expAt = calculateExpiry now (fst expiry) (snd expiry);
                sender = resolveSenderId senders acc (rq_from request);
                stored = storeOTP tbl1 now
                  \<lparr>sd_id = acc @ str ''_'' @ ph,
                   sd_phone = ph,
                   sd_codeHash = hash,
                   sd_expiresAt = expAt,
                   sd_maxAttempts = numOr (rq_maxAttempts request) 3,
                   sd_status = PENDING,
                   sd_pinLength = numOr (rq_pinLength request) 6,
                   sd_pinType = (case rq_pinType request of None \<Rightarrow> NUMERIC | Some t \<Rightarrow> t),
                   sd_senderId = fst sender\<rparr>;
                otpId = fst stored;
                sms = \<lparr>sms_to = ph, sms_senderId = snd sender, sms_code = code\<rparr>
            in if smsOk
               then (snd stored, Some sms,
                     Inr \<lparr>rs_id = otpId, rs_phone = ph, rs_from = snd sender, rs_expiresAt = expAt\<rparr>)
               else (markAsFailed (snd stored) otpId, Some sms, Inl SendFailed)))"

record OTPVerifyRequest =
  vr_phone :: jsstring
  vr_code :: jsstring

text \<open>The messages of \<open>verifyOTP\<close>'s responses, one constructor for each.\<close>

datatype verifyMessage =
    NoActiveOTPFound
  | OTPHasExpired
  | MaximumAttemptsReached
  | InvalidCodeMaximumReached
  | InvalidCodeRemaining int
  | VerifiedSuccessfully

record OTPVerifyResponse =
  success :: bool
  vp_phone :: jsstring
  verified :: bool
  attemptsLeft :: "int option"
  message :: verifyMessage

definition verifyFailure :: "jsstring \<Rightarrow> verifyMessage \<Rightarrow> OTPVerifyResponse" where
  "verifyFailure ph m =
    \<lparr>success = False, vp_phone = ph, verified = False, attemptsLeft = None, message = m\<rparr>"

text \<open>
  \<open>VerificationService.verifyOTP\<close>. \<open>t1\<close> is the clock read by \<open>getActiveOTP\<close>, \<open>t2\<close> the
  clock read by \<open>isExpired\<close> and by \<open>markAsVerified\<close> afterwards, and \<open>answers\<close> tells
  whether the statements on the table are answered: when they throw, \<open>getActiveOTP\<close>
  returns \<open>null\<close> and the call ends with the first response.
\<close>

definition verifyOTP ::
  "runtime \<Rightarrow> bool \<Rightarrow> otpTable \<Rightarrow> jsstring \<Rightarrow> OTPVerifyRequest \<Rightarrow> int \<Rightarrow> int \<Rightarrow> otpTable \<times> OTPVerifyResponse" where
  "verifyOTP rt answers tbl acc request t1 t2 =
    (let ph = normalizePhoneNumber (vr_phone request)
     in case getActiveOTP answers tbl acc ph t1 of
          None \<Rightarrow> (tbl, verifyFailure ph NoActiveOTPFound)
        | Some (i, otp) \<Rightarrow>
           if isExpired t2 (expiresAt otp) then
             (markAsExpired tbl i, verifyFailure ph OTPHasExpired)
           else if attempts otp \<ge> maxAttempts otp then
             (markAsFailed tbl i, verifyFailure ph MaximumAttemptsReached)
           else if \<not> verifyCode rt (toUpperCase rt (vr_code request)) (codeHash otp) then
             (let inc = incrementAttempts tbl i;
                  newAttempts = snd inc;
                  left = int (maxAttempts otp) - int newAttempts
              in if left \<le> 0
                 then (markAsFailed (fst inc) i, verifyFailure ph InvalidCodeMaximumReached)
                 else (fst inc,
                       \<lparr>success = False, vp_phone = ph, verified = False,
                        attemptsLeft = Some left, message = InvalidCodeRemaining left\<rparr>))
           else
             (markAsVerified tbl i t2,
              \<lparr>success = True, vp_phone = ph, verified = True,
               attemptsLeft = None, message = VerifiedSuccessfully\<rparr>))"

text \<open>\<open>Math.round\<close>: halves go up.\<close>

definition mathRound :: "rat \<Rightarrow> int" where
  "mathRound x = \<lfloor>x + 1 / 2\<rfloor>"

text \<open>
  \<open>VerificationService.resendOTP\<close>: the request carries the phone only. The code length
  and the attempt limit come from the newest row of the pair; the pin type passed to
  \<open>generateCode\<close> and to \<open>storeOTP\<close> is the literal \<open>'NUMERIC'\<close>. When the statements on
  the table throw, \<open>checkRateLimit\<close> lets the call pass and the query for the last row,
  the first statement after it, ends the call.
\<close>

definition resendOTP ::
  "runtime \<Rightarrow> senderIdRow list \<Rightarrow> (nat \<Rightarrow> rat) \<Rightarrow> bool \<Rightarrow> bool \<Rightarrow> otpTable \<Rightarrow> jsstring \<Rightarrow> jsstring \<Rightarrow> int
   \<Rightarrow> otpTable \<times> otpSMS option \<times> (otpError + OTPResponse)" where
  "resendOTP rt senders rnd smsOk answers tbl acc rphone now =
    (let ph = normalizePhoneNumber rphone
     in case checkRateLimit answers tbl acc ph 30 now of
          Some remainingSeconds \<Rightarrow> (tbl, None, Inl (RateLimited remainingSeconds))
        | None \<Rightarrow>
           if \<not> answers then (tbl, None, Inl StatementThrew)
           else
           (case findFirstDesc createdAt (\<lambda>r. accountId r = acc \<and> recipient r = ph) tbl of
              None \<Rightarrow> (tbl, None, Inl NoPreviousOTP)
            | Some (j, lastOTP) \<Rightarrow>
               (let tbl1 = invalidatePendingOTPs tbl acc ph;
                    code = generateCode rnd (codeLength lastOTP) NUMERIC;
                    hash = hashCode rt code;
                    expiryMinutes = mathRound (of_int (expiresAt lastOTP - createdAt lastOTP) / (1000 * 60));
                    expAt = calculateExpiry now expiryMinutes Minutes;
                    sender = resolveSenderId senders acc (Some (senderName lastOTP));
                    stored = storeOTP tbl1 now
                      \<lparr>sd_id = acc @ str ''_'' @ ph,
                       sd_phone = ph,
                       sd_codeHash = hash,
                       sd_expiresAt = expAt,
                       sd_maxAttempts = maxAttempts lastOTP,
                       sd_status = PENDING,
                       sd_pinLength = codeLength lastOTP,
                       sd_pinType = NUMERIC,
                       sd_senderId = fst sender\<rparr>;
                    otpId = fst stored;
                    sms = \<lparr>sms_to = ph, sms_senderId = snd sender, sms_code = code\<rparr>
                in if smsOk
                   then (snd stored, Some sms,
                         Inr \<lparr>rs_id = otpId, rs_phone = ph, rs_from = snd sender, rs_expiresAt = expAt\<rparr>)
                   else (markAsFailed (snd stored) otpId, Some sms, Inl SendFailed))))"

text \<open>
  A call of the service, with what the world contributes to it (clock readings, random
  draws, the outcome of the SMS, whether the table answers), and the table after a
  sequence of calls.
\<close>

datatype otpCall =
    Request jsstring OTPRequest int "nat \<Rightarrow> rat" bool bool
  | Resend jsstring jsstring int "nat \<Rightarrow> rat" bool bool
  | Verify jsstring OTPVerifyRequest int int bool

fun callAccount :: "otpCall \<Rightarrow> jsstring" where
  "callAccount (Request acc request now rnd smsOk answers) = acc"
| "callAccount (Resend acc rphone now rnd smsOk answers) = acc"
| "callAccount (Verify acc request t1 t2 answers) = acc"

fun otpStep :: "runtime \<Rightarrow> senderIdRow list \<Rightarrow> otpTable \<Rightarrow> otpCall \<Rightarrow> otpTable" where
  "otpStep rt senders tbl (Request acc request now rnd smsOk answers) =
     fst (requestOTP rt senders rnd smsOk answers tbl acc request now)"
| "otpStep rt senders tbl (Resend acc rphone now rnd smsOk answers) =
     fst (resendOTP rt senders rnd smsOk answers tbl acc rphone now)"
| "otpStep rt senders tbl (Verify acc request t1 t2 answers) =
     fst (verifyOTP rt answers tbl acc request t1 t2)"

definition otpRun :: "runtime \<Rightarrow> senderIdRow list \<Rightarrow> otpTable \<Rightarrow> otpCall list \<Rightarrow> otpTable" where
  "otpRun rt senders tbl calls = fold (\<lambda>c t. otpStep rt senders t c) calls tbl"

text \<open>The PENDING rows of a pair of account and phone.\<close>

definition isPendingFor :: "jsstring \<Rightarrow> jsstring \<Rightarrow> otpMessage \<Rightarrow> bool" where
  "isPendingFor acc ph r = (accountId r = acc \<and> recipient r = ph \<and> status r = PENDING)"

definition pendingFor :: "otpTable \<Rightarrow> jsstring \<Rightarrow> jsstring \<Rightarrow> otpMessage list" where
  "pendingFor tbl acc ph = filter (isPendingFor acc ph) tbl"

definition noPending :: "otpTable \<Rightarrow> jsstring \<Rightarrow> jsstring \<Rightarrow> bool" where
  "noPending tbl acc ph = (pendingFor tbl acc ph = [])"

text \<open>
  A call that can store a row under the pair of \<open>acc\<close> and \<open>ph\<close>: a request or a resend
  whose normalized phone is \<open>ph\<close> and whose composite id \<open>accountId_phone\<close>, cut as
  \<open>storeOTP\<close> cuts it, is \<open>acc\<close>.
\<close>

fun storesFor :: "jsstring \<Rightarrow> jsstring \<Rightarrow> otpCall \<Rightarrow> bool" where
  "storesFor acc ph (Request a request now rnd smsOk answers) =
     (splitFirst (a @ str ''_'' @ normalizePhoneNumber (rq_phone request)) = acc
      \<and> normalizePhoneNumber (rq_phone request) = ph)"
| "storesFor acc ph (Resend a rphone now rnd smsOk answers) =
     (splitFirst (a @ str ''_'' @ normalizePhoneNumber rphone) = acc
      \<and> normalizePhoneNumber rphone = ph)"
| "storesFor acc ph (Verify a request t1 t2 answers) = False"

text \<open>The single-active-OTP invariant: no pair has more than one PENDING row.\<close>

definition singlePending :: "otpTable \<Rightarrow> bool" where
  "singlePending tbl = (\<forall>acc ph. length (pendingFor tbl acc ph) \<le> 1)"

text \<open>
  Sample values for the closed instances below: a runtime whose hash is the code itself
  and whose \<open>toUpperCase\<close> maps the ASCII letters, a phone number, and a request for a
  six-letter alphabetic code.
\<close>

definition sampleRuntime :: runtime where
  "sampleRuntime =
    \<lparr>hashCode = (\<lambda>code. code),
     verifyCode = (\<lambda>code hash. code = hash),
     toUpperCase = map (\<lambda>c. if 97 \<le> c \<and> c \<le> 122 then c - 32 else c)\<rparr>"

definition samplePhone :: jsstring where
  "samplePhone = str ''+233244123456''"

definition sampleRequest :: OTPRequest where
  "sampleRequest =
    \<lparr>rq_phone = samplePhone, rq_from = None, rq_pinLength = Some 6,
     rq_pinType = Some ALPHABETIC, rq_expiry = None, rq_maxAttempts = Some 2\<rparr>"

definition sampleRow :: otpMessage where
  "sampleRow =
    \<lparr>accountId = str ''acct1'', recipient = samplePhone, codeHash = str ''AB12CD'',
     codeLength = 6, status = PENDING, expiresAt = 600000, maxAttempts = 2, attempts = 0,
     senderId = str ''default'', senderName = str ''default'', createdAt = 0,
     verifiedAt = None\<rparr>"

section \<open>Routing and pricing (sms-router.service.ts)\<close>

text \<open>Modelled from the spec: the Prisma enum \<open>MessageType\<close> is not among the sources; the
  spec's message types are single, bulk and OTP.\<close>

datatype MessageType = SMS | BULK | OTP

text \<open>\<open>v || null\<close> and \<open>v || undefined\<close> on an optional string: the empty string counts as
  absent.\<close>

definition strOrNull :: "jsstring option \<Rightarrow> jsstring option" where
  "strOrNull v = (case v of None \<Rightarrow> None | Some s \<Rightarrow> if s = [] then None else Some s)"

text \<open>
  The prices are JavaScript numbers, that is IEEE 754 doubles. The model holds a number
  as the rational that the double stands for. \<open>roundDouble\<close> is the rounding of the
  double arithmetic: to the nearest double, a tie to the even mantissa of 53 bits. It is
  written for results in the range of the normal doubles (magnitudes from 2 to the
  power -1022 up to 2 to the power 1024), where the prices are. A decimal literal of the
  source, such as \<open>0.035\<close>, stands for the double nearest to it, and \<open>x * y\<close> and
  \<open>x + y\<close> for the rounded product and sum.
\<close>

definition pow2 :: "int \<Rightarrow> rat" where
  "pow2 e = (if 0 \<le> e then 2 ^ nat e else 1 / 2 ^ nat (- e))"

text \<open>The integer part of the binary logarithm of a positive rational: the bit lengths
  of numerator and denominator give it up to one.\<close>

definition floorLog2 :: "rat \<Rightarrow> int" where
  "floorLog2 q =
    (let k = bitlen (fst (quotient_of q)) - bitlen (snd (quotient_of q))
     in if pow2 k \<le> q then k else k - 1)"

definition roundHalfEven :: "rat \<Rightarrow> int" where
  "roundHalfEven x =
    (let f = \<lfloor>x\<rfloor>; d = x - of_int f
     in if d < 1 / 2 then f else if 1 / 2 < d then f + 1 else if even f then f else f + 1)"

definition roundDouble :: "rat \<Rightarrow> rat" where
  "roundDouble q =
    (if q = 0 then 0
     else (let e = floorLog2 \<bar>q\<bar> - 52 in of_int (roundHalfEven (q / pow2 e)) * pow2 e))"

definition timesNumber :: "rat \<Rightarrow> rat \<Rightarrow> rat" where
  "timesNumber x y = roundDouble (x * y)"

definition plusNumber :: "rat \<Rightarrow> rat \<Rightarrow> rat" where
  "plusNumber x y = roundDouble (x + y)"

text \<open>A row of the table \<open>pricingRate\<close>, with the columns that \<open>getPricing\<close> reads.\<close>

record pricingRate =
  pr_country :: jsstring
  pr_network :: "jsstring option"
  pr_messageType :: MessageType
  pr_serviceType :: jsstring
  pr_isActive :: bool
  pr_effectiveFrom :: int
  pr_effectiveTo :: "int option"
  pr_ratePerUnit :: rat
  pr_currency :: jsstring

record SMSPricing =
  p_country :: jsstring
  p_network :: "jsstring option"
  ratePerUnit :: rat
  currency :: jsstring
  p_units :: nat
  totalCost :: rat

text \<open>
  The \<open>where\<close> clause of \<open>getPricing\<close>'s query: one lookup, whose network is the given
  one, or \<open>null\<close> when none is given. The clause reads the clock twice: \<open>now1\<close> is the
  \<open>new Date()\<close> that \<open>effectiveFrom\<close> is compared with, \<open>now2\<close> the one, read after it, that
  \<open>effectiveTo\<close> is compared with.
\<close>

definition pricingWhere ::
  "int \<Rightarrow> int \<Rightarrow> jsstring \<Rightarrow> jsstring option \<Rightarrow> MessageType \<Rightarrow> pricingRate \<Rightarrow> bool" where
  "pricingWhere now1 now2 cty net messageType r =
    (pr_country r = cty
     \<and> pr_network r = strOrNull net
     \<and> pr_messageType r = messageType
     \<and> pr_serviceType r = str ''SMS''
     \<and> pr_isActive r
     \<and> pr_effectiveFrom r \<le> now1
     \<and> (case pr_effectiveTo r of None \<Rightarrow> True | Some t \<Rightarrow> t \<ge> now2))"

text \<open>The fallback that \<open>getPricing\<close> returns when no row is found and when the query
  throws: the rate is the literal \<open>0.035\<close> and the total cost \<open>0.035 * units\<close>.\<close>

definition defaultPricing :: "jsstring \<Rightarrow> jsstring option \<Rightarrow> nat \<Rightarrow> SMSPricing" where
  "defaultPricing cty net n =
    \<lparr>p_country = cty, p_network = net, ratePerUnit = roundDouble (35 / 1000),
     currency = str ''GHS'', p_units = n,
     totalCost = timesNumber (roundDouble (35 / 1000)) (of_nat n)\<rparr>"

text \<open>
  \<open>SMSRouterService.getPricing\<close>. \<open>rates\<close> is the table \<open>pricingRate\<close>, or \<open>None\<close> when the
  query throws (the \<open>catch\<close> branch); \<open>now1\<close> and \<open>now2\<close> are the two readings of the
  clock; the number of units \<open>n\<close> is a natural number. The total cost is the product
  \<open>pricing.ratePerUnit * units\<close> of two doubles.
\<close>

definition getPricing ::
  "pricingRate list option \<Rightarrow> int \<Rightarrow> int \<Rightarrow> jsstring \<Rightarrow> jsstring option \<Rightarrow> MessageType \<Rightarrow> nat \<Rightarrow> SMSPricing" where
  "getPricing rates now1 now2 cty net messageType n =
    (case rates of
       None \<Rightarrow> defaultPricing cty net n
     | Some rows \<Rightarrow>
        (case findFirstDesc pr_effectiveFrom (pricingWhere now1 now2 cty net messageType) rows of
           None \<Rightarrow> defaultPricing cty net n
         | Some (i, pricing) \<Rightarrow>
            \<lparr>p_country = cty, p_network = strOrNull net,
             ratePerUnit = pr_ratePerUnit pricing, currency = pr_currency pricing,
             p_units = n, totalCost = timesNumber (pr_ratePerUnit pricing) (of_nat n)\<rparr>))"

text \<open>
  A row of the table \<open>provider\<close>. Modelled from the spec: the Prisma model is not among
  the sources; priority rank, rolling success rate and rolling average latency are
  numbers, of which the source's \<open>x || d\<close> replaces 0 by \<open>d\<close>.
\<close>

record provider =
  pv_id :: jsstring
  pv_name :: jsstring
  pv_type :: jsstring
  pv_status :: jsstring
  supportedCountries :: "jsstring list"
  supportedNetworks :: "jsstring list"
  priority :: int
  successRate :: rat
  avgLatency :: rat

datatype priorityHint = Cost | Speed | Reliability

record ProviderSelectionCriteria =
  c_country :: jsstring
  c_network :: "jsstring option"
  c_messageType :: MessageType
  c_priority :: "priorityHint option"

record ProviderInfo =
  pi_id :: jsstring
  pi_name :: jsstring
  pi_type :: jsstring
  pi_countries :: "jsstring list"
  pi_networks :: "jsstring list"
  pi_priority :: int
  pi_successRate :: "rat option"
  pi_avgLatency :: "rat option"
  pi_costPerUnit :: rat

text \<open>\<open>x || undefined\<close> and \<open>x || d\<close> on a number.\<close>

definition numOrUndefined :: "rat \<Rightarrow> rat option" where
  "numOrUndefined x = (if x = 0 then None else Some x)"

definition ratOr :: "rat \<Rightarrow> rat \<Rightarrow> rat" where
  "ratOr x d = (if x = 0 then d else x)"

definition providerInfo :: "provider \<Rightarrow> ProviderInfo" where
  "providerInfo p =
    \<lparr>pi_id = pv_id p, pi_name = pv_name p, pi_type = pv_type p,
     pi_countries = supportedCountries p, pi_networks = supportedNetworks p,
     pi_priority = priority p, pi_successRate = numOrUndefined (successRate p),
     pi_avgLatency = numOrUndefined (avgLatency p), pi_costPerUnit = roundDouble (35 / 1000)\<rparr>"

text \<open>The \<open>where\<close> clause of \<open>selectProvider\<close>'s query.\<close>

definition providerWhere :: "jsstring \<Rightarrow> provider \<Rightarrow> bool" where
  "providerWhere cty p =
    (pv_type p = str ''SMS'' \<and> pv_status p = str ''ACTIVE'' \<and> cty \<in> set (supportedCountries p))"

text \<open>
  The query of \<open>selectProvider\<close>: the rows that satisfy \<open>where\<close>, ordered by priority
  descending, then success rate descending (rows equal in both stay in the table's order).
\<close>

definition findManyProviders :: "provider list \<Rightarrow> jsstring \<Rightarrow> provider list" where
  "findManyProviders rows cty =
    sort_key (\<lambda>p. (- priority p, - successRate p)) (filter (providerWhere cty) rows)"

text \<open>
  \<open>SMSRouterService.selectProvider\<close>. \<open>table\<close> is the table \<open>provider\<close>, or \<open>None\<close> when the
  query throws: the \<open>catch\<close> branch returns \<open>null\<close>. \<open>Array.prototype.sort\<close> is stable; with
  the comparator \<open>(a.avgLatency || 1000) - (b.avgLatency || 1000)\<close> it sorts by that key
  ascending, and with \<open>(b.successRate || 0) - (a.successRate || 0)\<close> by the success rate
  descending. The array that is ordered is never empty here; on an empty one
  \<open>selectedProvider.name\<close> would throw and the \<open>catch\<close> branch return \<open>null\<close>.
\<close>

definition selectProvider :: "provider list option \<Rightarrow> ProviderSelectionCriteria \<Rightarrow> ProviderInfo option" where
  "selectProvider table criteria =
    (case table of
       None \<Rightarrow> None
     | Some rows \<Rightarrow>
        (let providers = findManyProviders rows (c_country criteria)
         in if length providers = 0 then None
            else
              (let filteredProviders =
                     (case strOrNull (c_network criteria) of
                        None \<Rightarrow> providers
                      | Some n \<Rightarrow>
                         (let byNetwork = filter (\<lambda>p. n \<in> set (supportedNetworks p)) providers
                          in if length byNetwork = 0 then providers else byNetwork));
                   ordered =
                     (case c_priority criteria of
                        Some Cost \<Rightarrow> filteredProviders
                      | Some Speed \<Rightarrow> sort_key (\<lambda>p. ratOr (avgLatency p) 1000) filteredProviders
                      | Some Reliability \<Rightarrow> sort_key (\<lambda>p. - ratOr (successRate p) 0) filteredProviders
                      | None \<Rightarrow> filteredProviders)
               in case ordered of
                    [] \<Rightarrow> None
                  | selectedProvider # rest \<Rightarrow> Some (providerInfo selectedProvider))))"



text \<open>Sample rows for the closed instances below.\<close>

definition sampleRate :: "jsstring option \<Rightarrow> rat \<Rightarrow> pricingRate" where
  "sampleRate net rate =
    \<lparr>pr_country = str ''GH'', pr_network = net, pr_messageType = SMS,
     pr_serviceType = str ''SMS'', pr_isActive = True, pr_effectiveFrom = 0,
     pr_effectiveTo = None, pr_ratePerUnit = rate, pr_currency = str ''GHS''\<rparr>"

definition sampleProvider :: "string \<Rightarrow> string list \<Rightarrow> int \<Rightarrow> rat \<Rightarrow> rat \<Rightarrow> provider" where
  "sampleProvider name nets prio rate latency =
    \<lparr>pv_id = str name, pv_name = str name, pv_type = str ''SMS'', pv_status = str ''ACTIVE'',
     supportedCountries = [str ''GH''], supportedNetworks = map str nets,
     priority = prio, successRate = rate, avgLatency = latency\<rparr>"


text \<open>
  \<open>countryCodeMap\<close> of \<open>getCountryFromPhone\<close>, in the order in which \<open>Object.entries\<close>
  lists it: keys that are integers come in ascending numeric order.
\<close>

definition countryCodeMap :: "(jsstring \<times> jsstring) list" where
  "countryCodeMap =
    [(str ''20'', str ''EG''), (str ''27'', str ''ZA''), (str ''212'', str ''MA''),
     (str ''213'', str ''DZ''), (str ''221'', str ''SN''), (str ''225'', str ''CI''),
     (str ''233'', str ''GH''), (str ''234'', str ''NG''), (str ''237'', str ''CM''),
     (str ''250'', str ''RW''), (str ''251'', str ''ET''), (str ''254'', str ''KE''),
     (str ''255'', str ''TZ''), (str ''256'', str ''UG'')]"

definition getCountryFromPhone :: "jsstring \<Rightarrow> jsstring" where
  "getCountryFromPhone ph =
    (case find (\<lambda>(code, cty). startsWith (digitsOnly ph) code) countryCodeMap of
       Some (code, cty) \<Rightarrow> cty
     | None \<Rightarrow> str ''GH'')"

text \<open>\<open>detectNetworkFromPhone\<close> of the router: the network name, or \<open>null\<close>.\<close>

definition detectNetworkFromPhone :: "jsstring \<Rightarrow> jsstring option" where
  "detectNetworkFromPhone ph =
    (let cleaned = digitsOnly ph;
         gh = startsWith cleaned (str ''233''); p2 = substring cleaned 3 5;
         ng = startsWith cleaned (str ''234''); p3 = substring cleaned 3 6;
         ke = startsWith cleaned (str ''254'')
     in if gh \<and> p2 \<in> set (map str [''20'', ''50'', ''23'', ''28'']) then Some (str ''vodafone'')
        else if gh \<and> p2 \<in> set (map str [''24'', ''54'', ''55'', ''59'']) then Some (str ''mtn'')
        else if gh \<and> p2 \<in> set (map str [''26'', ''56'', ''27'', ''57'']) then Some (str ''airteltigo'')
        else if ng \<and> p3 \<in> set (map str [''803'', ''806'', ''810'', ''813'', ''816'', ''903'', ''906''])
          then Some (str ''mtn'')
        else if ng \<and> p3 \<in> set (map str [''805'', ''807'', ''811'', ''815'', ''905'']) then Some (str ''glo'')
        else if ng \<and> p3 \<in> set (map str [''802'', ''808'', ''812'', ''902'', ''907'', ''901''])
          then Some (str ''airtel'')
        else if ke \<and> p3 \<in> set (map str [''701'', ''702'', ''703'', ''704'', ''705'', ''706'', ''707'', ''708'', ''709''])
          then Some (str ''safaricom'')
        else if ke \<and> p3 \<in> set (map str [''710'', ''711'', ''712'', ''713'', ''714'', ''715''])
          then Some (str ''airtel'')
        else None)"

text \<open>
  What the SMS services read of the world: the tables \<open>provider\<close> and \<open>pricingRate\<close>
  (\<open>None\<close> when the query throws), the clock, and
  \<open>SMSValidationService.replaceVariables\<close>, whose regular expressions are built from the
  variables' keys: it is a parameter of the model, with \<open>None\<close> for a key that makes
  \<open>new RegExp\<close> throw. \<open>w_clock w k j\<close> is reading number \<open>j\<close> of the clock in round \<open>k\<close> of
  the loop of \<open>sendBulkSMS\<close>: a round reads the clock four times, twice in each of its
  two calls of \<open>getPricing\<close>.
\<close>

record smsWorld =
  w_providers :: "provider list option"
  w_rates :: "pricingRate list option"
  w_clock :: "nat \<Rightarrow> nat \<Rightarrow> int"
  w_replaceVariables :: "jsstring \<Rightarrow> (jsstring \<times> jsstring) list \<Rightarrow> jsstring option"

record routing =
  rt_provider :: "ProviderInfo option"
  rt_pricing :: SMSPricing
  rt_country :: jsstring
  rt_network :: "jsstring option"

text \<open>\<open>SMSRouterService.routeMessage\<close>, called without a priority hint; \<open>now1\<close> and \<open>now2\<close>
  are the readings of the clock in its call of \<open>getPricing\<close>.\<close>

definition routeMessage :: "smsWorld \<Rightarrow> int \<Rightarrow> int \<Rightarrow> jsstring \<Rightarrow> MessageType \<Rightarrow> routing" where
  "routeMessage w now1 now2 to messageType =
    (let cty = getCountryFromPhone to;
         net = detectNetworkFromPhone to
     in \<lparr>rt_provider = selectProvider (w_providers w)
            \<lparr>c_country = cty, c_network = net, c_messageType = messageType, c_priority = None\<rparr>,
         rt_pricing = getPricing (w_rates w) now1 now2 cty net messageType 1,
         rt_country = cty,
         rt_network = net\<rparr>)"

section \<open>Bulk sending (sms.service.ts)\<close>

datatype MessageStatus = M_PENDING | M_QUEUED | M_SENT | M_DELIVERED | M_FAILED | M_EXPIRED

text \<open>A row of the table \<open>message\<close> as \<open>sendBulkSMS\<close> creates it (without the schedule
  time, the metadata and the tags, which it copies from the request).\<close>

record message =
  m_accountId :: jsstring
  m_recipient :: jsstring
  m_recipientCountry :: jsstring
  m_recipientNetwork :: "jsstring option"
  m_content :: jsstring
  m_messageType :: MessageType
  m_senderId :: jsstring
  m_senderName :: jsstring
  m_status :: MessageStatus
  m_provider :: jsstring
  m_units :: nat
  m_unitCost :: rat
  m_totalCost :: rat
  m_currency :: jsstring
  m_batchId :: "jsstring option"

text \<open>The errors that \<open>sendBulkSMS\<close> throws: both come from \<open>resolveSenderId\<close>, before
  the loop.\<close>

datatype smsError = NoApprovedSenderId | SenderQueryThrew

text \<open>
  \<open>SMSService.resolveSenderId\<close>: as the verification service's, but it throws when the
  account has no approved sender id. \<open>senders\<close> is the table \<open>senderId\<close>, or \<open>None\<close> when
  the query throws: nothing catches that exception before the caller of \<open>sendBulkSMS\<close>.
\<close>

definition smsResolveSenderId ::
  "senderIdRow list option \<Rightarrow> jsstring \<Rightarrow> jsstring option \<Rightarrow> smsError + (jsstring \<times> jsstring)" where
  "smsResolveSenderId table acc requestedSenderId =
    (case table of
       None \<Rightarrow> Inl SenderQueryThrew
     | Some senders \<Rightarrow>
        (case (case strOrNull requestedSenderId of
                 None \<Rightarrow> None
               | Some n \<Rightarrow> find (\<lambda>s. sid_accountId s = acc \<and> sid_name s = n
                                      \<and> sid_approved s \<and> sid_isActive s) senders) of
           Some s \<Rightarrow> Inr (sid_id s, sid_name s)
         | None \<Rightarrow>
            (case find (\<lambda>s. sid_accountId s = acc \<and> sid_approved s \<and> sid_isActive s
                             \<and> sid_isDefault s) senders of
               Some s \<Rightarrow> Inr (sid_id s, sid_name s)
             | None \<Rightarrow>
                (case find (\<lambda>s. sid_accountId s = acc \<and> sid_approved s \<and> sid_isActive s) senders of
                   Some s \<Rightarrow> Inr (sid_id s, sid_name s)
                 | None \<Rightarrow> Inl NoApprovedSenderId))))"

record bulkRecipient =
  r_to :: jsstring
  r_message :: "jsstring option"
  r_variables :: "(jsstring \<times> jsstring) list option"

record BulkSMSRequest =
  recipients :: "bulkRecipient list"
  b_message :: "jsstring option"
  b_senderId :: "jsstring option"

datatype lineStatus = Accepted | Rejected

text \<open>The \<open>error\<close> of a rejected line: the three messages of the source, and the message
  of an exception caught for the recipient.\<close>

datatype lineError = NoMessageProvided | InvalidPhone "string list" | NoProviderAvailable | Caught

text \<open>A line of \<open>results\<close>, with the four fields the source gives it; \<open>l_id\<close> is the id of
  the created row, \<open>None\<close> for the source's empty string.\<close>

record bulkLine =
  l_id :: "nat option"
  l_to :: jsstring
  l_status :: lineStatus
  l_error :: "lineError option"

definition rejectedLine :: "jsstring \<Rightarrow> lineError \<Rightarrow> bulkLine" where
  "rejectedLine to e = \<lparr>l_id = None, l_to = to, l_status = Rejected, l_error = Some e\<rparr>"

text \<open>\<open>recipient.message || request.message\<close>.\<close>

definition recipientMessage :: "BulkSMSRequest \<Rightarrow> bulkRecipient \<Rightarrow> jsstring option" where
  "recipientMessage request rc =
    (case strOrNull (r_message rc) of Some m \<Rightarrow> Some m | None \<Rightarrow> strOrNull (b_message request))"

text \<open>\<open>finalMessage\<close>: the message after \<open>replaceVariables\<close> when the recipient has
  variables; \<open>None\<close> when that throws.\<close>

definition finalMessageOf :: "smsWorld \<Rightarrow> jsstring \<Rightarrow> bulkRecipient \<Rightarrow> jsstring option" where
  "finalMessageOf w m rc =
    (case r_variables rc of None \<Rightarrow> Some m | Some vars \<Rightarrow> w_replaceVariables w m vars)"

text \<open>The \<open>data\<close> of \<open>prisma.message.create\<close> in \<open>sendBulkSMS\<close>.\<close>

definition bulkMessageRow ::
  "jsstring \<Rightarrow> jsstring \<times> jsstring \<Rightarrow> jsstring \<Rightarrow> jsstring \<Rightarrow> jsstring \<Rightarrow> MessageUnits \<Rightarrow> routing
   \<Rightarrow> SMSPricing \<Rightarrow> ProviderInfo \<Rightarrow> message" where
  "bulkMessageRow acc sender batch to finalMessage messageUnits rtg pricing prov =
    \<lparr>m_accountId = acc, m_recipient = to,
     m_recipientCountry = rt_country rtg, m_recipientNetwork = rt_network rtg,
     m_content = finalMessage, m_messageType = BULK,
     m_senderId = fst sender, m_senderName = snd sender,
     m_status = M_QUEUED, m_provider = pi_name prov,
     m_units = units messageUnits, m_unitCost = ratePerUnit pricing,
     m_totalCost = totalCost pricing, m_currency = currency pricing,
     m_batchId = Some batch\<rparr>"

text \<open>The two calls of the router in round \<open>k\<close> of the loop, each with its two readings
  of the clock: \<open>routeMessage(validation.formatted, MessageType.BULK)\<close> and
  \<open>getPricing(routing.country, routing.network, MessageType.BULK, messageUnits.units)\<close>.\<close>

definition roundRoute :: "smsWorld \<Rightarrow> nat \<Rightarrow> jsstring \<Rightarrow> routing" where
  "roundRoute w k to = routeMessage w (w_clock w k 0) (w_clock w k 1) to BULK"

definition roundPricing :: "smsWorld \<Rightarrow> nat \<Rightarrow> routing \<Rightarrow> nat \<Rightarrow> SMSPricing" where
  "roundPricing w k rtg n =
    getPricing (w_rates w) (w_clock w k 2) (w_clock w k 3) (rt_country rtg) (rt_network rtg) BULK n"

text \<open>
  Round \<open>k\<close> of the loop of \<open>sendBulkSMS\<close>, in the order of the source: the message, the
  variables, the phone, the units, the route, the price, the row. \<open>createFails\<close> tells
  which rows \<open>prisma.message.create\<close> rejects by throwing. The round takes the table
  \<open>message\<close> and the running \<open>totalCost\<close>, and returns them with the line pushed onto
  \<open>results\<close>. Every exception of the round is caught by the \<open>catch\<close> of the loop's body,
  which pushes a rejected line.
\<close>

definition processRecipient ::
  "smsWorld \<Rightarrow> (message \<Rightarrow> bool) \<Rightarrow> jsstring \<Rightarrow> jsstring \<times> jsstring \<Rightarrow> jsstring \<Rightarrow> BulkSMSRequest
   \<Rightarrow> nat \<Rightarrow> message list \<Rightarrow> rat \<Rightarrow> bulkRecipient \<Rightarrow> message list \<times> bulkLine \<times> rat" where
  "processRecipient w createFails acc sender batch request k tbl costs rc =
    (case recipientMessage request rc of
       None \<Rightarrow> (tbl, rejectedLine (r_to rc) NoMessageProvided, costs)
     | Some m \<Rightarrow>
        (case finalMessageOf w m rc of
           None \<Rightarrow> (tbl, rejectedLine (r_to rc) Caught, costs)
         | Some finalMessage \<Rightarrow>
            (let validation = validatePhoneNumber (r_to rc)
             in if \<not> valid validation then
                  (tbl, rejectedLine (r_to rc)
                          (InvalidPhone (case errors validation of None \<Rightarrow> [] | Some es \<Rightarrow> es)), costs)
                else
                  (let messageUnits = calculateMessageUnits finalMessage;
                       rtg = roundRoute w k (formatted validation)
                   in case rt_provider rtg of
                        None \<Rightarrow> (tbl, rejectedLine (r_to rc) NoProviderAvailable, costs)
                      | Some prov \<Rightarrow>
                         (let pricing = roundPricing w k rtg (units messageUnits);
                              row = bulkMessageRow acc sender batch (formatted validation)
                                      finalMessage messageUnits rtg pricing prov
                          in if createFails row then (tbl, rejectedLine (r_to rc) Caught, costs)
                             else (tbl @ [row],
                                   \<lparr>l_id = Some (length tbl), l_to = formatted validation,
                                    l_status = Accepted, l_error = None\<rparr>,
                                   plusNumber costs (totalCost pricing)))))))"

text \<open>The loop over \<open>request.recipients\<close> from round \<open>k\<close> on, with the table, \<open>results\<close> and
  \<open>totalCost\<close>.\<close>

fun bulkLoop ::
  "smsWorld \<Rightarrow> (message \<Rightarrow> bool) \<Rightarrow> jsstring \<Rightarrow> jsstring \<times> jsstring \<Rightarrow> jsstring \<Rightarrow> BulkSMSRequest
   \<Rightarrow> nat \<Rightarrow> bulkRecipient list \<Rightarrow> message list \<times> bulkLine list \<times> rat \<Rightarrow> message list \<times> bulkLine list \<times> rat" where
  "bulkLoop w createFails acc sender batch request k [] st = st"
| "bulkLoop w createFails acc sender batch request k (rc # rcs) (tbl, results, costs) =
    (case processRecipient w createFails acc sender batch request k tbl costs rc of
       (tbl', line, costs') \<Rightarrow>
         bulkLoop w createFails acc sender batch request (Suc k) rcs (tbl', results @ [line], costs'))"

record BulkSMSResponse =
  resp_batchId :: jsstring
  totalRecipients :: nat
  accepted :: nat
  rejected :: nat
  estimatedCost :: rat
  resp_currency :: jsstring
  resp_messages :: "bulkLine list"

text \<open>
  \<open>SMSService.sendBulkSMS\<close>. \<open>batch\<close> is the id that \<open>nanoid(16)\<close> returns and \<open>senders\<close> the
  table \<open>senderId\<close> (\<open>None\<close> when its query throws). The result is the error thrown, or the
  response and the table \<open>message\<close> after the call.
\<close>

definition sendBulkSMS ::
  "smsWorld \<Rightarrow> (message \<Rightarrow> bool) \<Rightarrow> senderIdRow list option \<Rightarrow> jsstring \<Rightarrow> message list \<Rightarrow> jsstring
   \<Rightarrow> BulkSMSRequest \<Rightarrow> smsError + (BulkSMSResponse \<times> message list)" where
  "sendBulkSMS w createFails senders batch tbl acc request =
    (case smsResolveSenderId senders acc (b_senderId request) of
       Inl e \<Rightarrow> Inl e
     | Inr sender \<Rightarrow>
        (case bulkLoop w createFails acc sender batch request 0 (recipients request) (tbl, [], 0) of
           (tbl', results, costs) \<Rightarrow>
             Inr (\<lparr>resp_batchId = batch,
                   totalRecipients = length (recipients request),
                   accepted = length (filter (\<lambda>r. l_status r = Accepted) results),
                   rejected = length (filter (\<lambda>r. l_status r = Rejected) results),
                   estimatedCost = costs,
                   resp_currency = str ''GHS'',
                   resp_messages = results\<rparr>, tbl')))"

text \<open>
  The recipient of round \<open>k\<close> fails: it has no message, its variables cannot be replaced,
  its phone number fails validation, no provider routes it, or its row cannot be
  created.
\<close>

definition recipientFails ::
  "smsWorld \<Rightarrow> (message \<Rightarrow> bool) \<Rightarrow> jsstring \<Rightarrow> jsstring \<times> jsstring \<Rightarrow> jsstring \<Rightarrow> BulkSMSRequest
   \<Rightarrow> nat \<Rightarrow> bulkRecipient \<Rightarrow> bool" where
  "recipientFails w createFails acc sender batch request k rc =
    (case recipientMessage request rc of
       None \<Rightarrow> True
     | Some m \<Rightarrow>
        (case finalMessageOf w m rc of
           None \<Rightarrow> True
         | Some finalMessage \<Rightarrow>
            \<not> valid (validatePhoneNumber (r_to rc))
            \<or> (case rt_provider (roundRoute w k (formatted (validatePhoneNumber (r_to rc)))) of
                  None \<Rightarrow> True
                | Some prov \<Rightarrow>
                   createFails
                     (bulkMessageRow acc sender batch (formatted (validatePhoneNumber (r_to rc)))
                        finalMessage (calculateMessageUnits finalMessage)
                        (roundRoute w k (formatted (validatePhoneNumber (r_to rc))))
                        (roundPricing w k (roundRoute w k (formatted (validatePhoneNumber (r_to rc))))
                           (units (calculateMessageUnits finalMessage)))
                        prov))))"

text \<open>The status that goes with it.\<close>

definition outcome ::
  "smsWorld \<Rightarrow> (message \<Rightarrow> bool) \<Rightarrow> jsstring \<Rightarrow> jsstring \<times> jsstring \<Rightarrow> jsstring \<Rightarrow> BulkSMSRequest
   \<Rightarrow> nat \<Rightarrow> bulkRecipient \<Rightarrow> lineStatus" where
  "outcome w createFails acc sender batch request k rc =
     (if recipientFails w createFails acc sender batch request k rc then Rejected else Accepted)"

text \<open>The recipients of a request with the numbers of their rounds.\<close>

definition rounds :: "BulkSMSRequest \<Rightarrow> (nat \<times> bulkRecipient) list" where
  "rounds request = enumerate 0 (recipients request)"

text \<open>Sample values for the closed instances below: a world with one provider for Ghana
  and the country-wide rate of 0.05, a sender id of the account, and a request with two
  recipients.\<close>

definition sampleWorld :: smsWorld where
  "sampleWorld =
    \<lparr>w_providers = Some [sampleProvider ''P1'' [''mtn''] 1 90 300],
     w_rates = Some [sampleRate None (roundDouble (5 / 100))],
     w_clock = (\<lambda>k j. 1000 + 10 * int k + int j),
     w_replaceVariables = (\<lambda>m vars. Some m)\<rparr>"

definition sampleSenders :: "senderIdRow list" where
  "sampleSenders =
    [\<lparr>sid_id = str ''s1'', sid_accountId = str ''acct1'', sid_name = str ''Brand'',
      sid_approved = True, sid_isActive = True, sid_isDefault = True\<rparr>]"

definition sampleBulk :: BulkSMSRequest where
  "sampleBulk =
    \<lparr>recipients =
       [\<lparr>r_to = str ''+233244123456'', r_message = None, r_variables = None\<rparr>,
        \<lparr>r_to = str ''0244'', r_message = None, r_variables = None\<rparr>],
     b_message = Some (str ''Hello''),
     b_senderId = None\<rparr>"

section \<open>Properties of phone validation\<close>






section \<open>Properties of the message unit calculation\<close>

lemma ceilDiv_ceiling:
  assumes d: "0 < d" shows "int (ceilDiv n d) = \<lceil>real n / real d\<rceil>"
proof -
  define q where "q = (n + d - 1) div d"
  define r where "r = (n + d - 1) mod d"
  have r: "r < d" using d by (simp add: r_def)
  have "n + d - 1 = d * q + r" by (simp add: q_def r_def)
  then have e: "n + d = d * q + r + 1" using d by linarith
  have n_le: "n \<le> d * q" using e r by linarith
  have n_gt: "d * q < n + d" using e by linarith
  have rd: "0 < real d" using d by simp
  have up: "real n / real d \<le> real_of_int (int q)"
  proof -
    have "real n \<le> real d * real q" using n_le by (metis of_nat_le_iff of_nat_mult)
    then show ?thesis using rd by (simp add: pos_divide_le_eq mult.commute)
  qed
  have lo: "real_of_int (int q) - 1 < real n / real d"
  proof -
    have "real d * real q < real n + real d" using n_gt by (metis of_nat_less_iff of_nat_mult of_nat_add)
    then have "(real q - 1) * real d < real n" by (simp add: algebra_simps)
    then show ?thesis using rd by (simp add: pos_less_divide_eq)
  qed
  have "\<lceil>real n / real d\<rceil> = int q" using lo up by (rule ceiling_unique)
  then show ?thesis by (simp add: ceilDiv_def q_def)
qed

text \<open>
  What \<open>calculateMessageUnits\<close> computes for every message, with the character class of the
  source's regular expression deciding the encoding: the thresholds are 160 and 153 for
  GSM-7 and 70 and 67 for UCS-2, and the unit count is 0, 1 or the rounded-up quotient.
\<close>

lemma calculateMessageUnits_shape:
  "messageLength (calculateMessageUnits m) = length m
   \<and> encoding (calculateMessageUnits m) = (if list_all gsm7class m then GSM7 else UCS2)
   \<and> units (calculateMessageUnits m) =
       (let single = (if list_all gsm7class m then 160 else 70);
            concat = (if list_all gsm7class m then 153 else 67)
        in if length m = 0 then 0 else if length m \<le> single then 1 else ceilDiv (length m) concat)
   \<and> charactersPerUnit (calculateMessageUnits m) =
       (if list_all gsm7class m then (if length m \<le> 160 then 160 else 153)
        else (if length m \<le> 70 then 70 else 67))"
  by (simp add: calculateMessageUnits_def Let_def gsm7chars_test_def)

text \<open>
  C1 at a message of 71 times the letter U+00DC (capital U with diaeresis, code unit 220),
  a letter of the GSM 03.38 default alphabet: the source's class does not hold it, so the
  message is taken as UCS-2 and counted as two units of 67, where GSM-7 gives one unit.
  The same holds for U+00A7 (the section sign, 167). In the other direction the class
  holds U+00AC (the not sign, 172), which the default alphabet does not: a message of it
  is taken as GSM-7.
\<close>

theorem calculateMessageUnits_U_diaeresis:
  "encoding (calculateMessageUnits (replicate 71 220)) = UCS2
   \<and> units (calculateMessageUnits (replicate 71 220)) = 2
   \<and> charactersPerUnit (calculateMessageUnits (replicate 71 220)) = 67
   \<and> encoding (calculateMessageUnits (replicate 71 167)) = UCS2
   \<and> encoding (calculateMessageUnits (replicate 71 172)) = GSM7
   \<and> units (calculateMessageUnits (replicate 71 172)) = 1"
  by (simp add: calculateMessageUnits_def Let_def gsm7chars_test_def gsm7class_def ceilDiv_def list_all_iff)

section \<open>Properties of code generation\<close>

lemma fold_append_concat:
  "fold (\<lambda>i code. code @ f i) xs acc = acc @ concat (map f xs)"
  by (induction xs arbitrary: acc) auto

lemma generateCode_concat:
  "generateCode rnd len t =
     concat (map (\<lambda>i. charAt (pinCharacters t) \<lfloor>rnd i * of_nat (length (pinCharacters t))\<rfloor>) [0..<len])"
  by (simp add: generateCode_def Let_def fold_append_concat)

lemma pinCharacters_nonempty: "0 < length (pinCharacters t)"
  by (cases t) (simp_all add: pinCharacters_def str_def)

lemma draw_in_range:
  assumes "0 \<le> r" "r < 1" "0 < n"
  shows "0 \<le> \<lfloor>r * of_nat n\<rfloor> \<and> \<lfloor>r * of_nat n\<rfloor> < int n"
proof -
  have "0 \<le> r * of_nat n" using assms by simp
  then have a: "0 \<le> \<lfloor>r * of_nat n\<rfloor>" by simp
  have "r * of_nat n < 1 * of_nat n" using assms by (intro mult_strict_right_mono) simp_all
  then have "r * of_nat n < of_int (int n)" by simp
  then have "\<lfloor>r * of_nat n\<rfloor> < int n" by (simp only: floor_less_iff)
  with a show ?thesis by simp
qed

lemma charAt_in_range:
  "0 \<le> i \<Longrightarrow> i < int (length s) \<Longrightarrow> charAt s i = [s ! nat i] \<and> s ! nat i \<in> set s"
  by (simp add: charAt_def)

lemma generateCode_length_alphabet:
  assumes "\<forall>i<len. 0 \<le> rnd i \<and> rnd i < 1"
  shows "length (generateCode rnd len t) = len \<and> set (generateCode rnd len t) \<subseteq> set (pinCharacters t)"
  using assms
proof (induction len)
  case 0
  then show ?case by (simp add: generateCode_concat)
next
  case (Suc len)
  then have ih: "length (generateCode rnd len t) = len \<and> set (generateCode rnd len t) \<subseteq> set (pinCharacters t)"
    by simp
  have r: "0 \<le> rnd len \<and> rnd len < 1" using Suc.prems by simp
  let ?k = "\<lfloor>rnd len * of_nat (length (pinCharacters t))\<rfloor>"
  have k: "0 \<le> ?k \<and> ?k < int (length (pinCharacters t))"
    using draw_in_range [of "rnd len" "length (pinCharacters t)"] r pinCharacters_nonempty by simp
  have c: "charAt (pinCharacters t) ?k = [pinCharacters t ! nat ?k] \<and> pinCharacters t ! nat ?k \<in> set (pinCharacters t)"
    using charAt_in_range k by blast
  have step: "generateCode rnd (Suc len) t = generateCode rnd len t @ charAt (pinCharacters t) ?k"
    by (simp add: generateCode_concat)
  show ?case using ih c step by simp
qed

lemma pinCharacters_alphabets:
  "set (pinCharacters NUMERIC) = {c. 48 \<le> c \<and> c \<le> 57}"
  "set (pinCharacters ALPHABETIC) = {c. 65 \<le> c \<and> c \<le> 90}"
  "set (pinCharacters ALPHANUMERIC) = {c. (48 \<le> c \<and> c \<le> 57) \<or> (65 \<le> c \<and> c \<le> 90)}"
proof -
  have n: "pinCharacters NUMERIC = [48..<58]" by (simp add: pinCharacters_def str_def upt_rec)
  have a: "pinCharacters ALPHABETIC = [65..<91]" by (simp add: pinCharacters_def str_def upt_rec)
  have an: "pinCharacters ALPHANUMERIC = [48..<58] @ [65..<91]" by (simp add: pinCharacters_def str_def upt_rec)
  show "set (pinCharacters NUMERIC) = {c. 48 \<le> c \<and> c \<le> 57}"
    unfolding n set_upt by auto
  show "set (pinCharacters ALPHABETIC) = {c. 65 \<le> c \<and> c \<le> 90}"
    unfolding a set_upt by auto
  show "set (pinCharacters ALPHANUMERIC) = {c. (48 \<le> c \<and> c \<le> 57) \<or> (65 \<le> c \<and> c \<le> 90)}"
    unfolding an set_append set_upt by auto
qed

text \<open>
  C6 at the call \<open>generateCode(6, PinType.NUMERIC)\<close> (and one for the alphanumeric
  alphabet): the code is a function of the results of \<open>Math.random()\<close> and of nothing else;
  when all six are 0 the code is \<open>000000\<close>. The source draws from \<open>Math.random\<close>, under a
  comment that says to use crypto. For draws in \<open>[0, 1)\<close> the length and the alphabet are as
  requested (\<open>generateCode_length_alphabet\<close>).
\<close>

theorem generateCode_draws:
  "generateCode (\<lambda>i. 0) 6 NUMERIC = str ''000000''
   \<and> generateCode (\<lambda>i. of_nat i / 7) 6 ALPHANUMERIC = str ''05AFKP''"
  by code_simp

section \<open>Properties of the OTP store\<close>

subsection \<open>findFirstDesc\<close>

lemma fold_pick_mem:
  "fold (\<lambda>x best. if P x best then x else best) cs c \<in> set (c # cs)"
  by (induction cs arbitrary: c) auto

lemma findFirstDesc_Some:
  assumes "findFirstDesc key wh rows = Some (i, r)"
  shows "i < length rows \<and> rows ! i = r \<and> wh r"
proof -
  let ?cands = "filter (\<lambda>(i, r). wh r) (enumerate 0 rows)"
  from assms obtain c cs where cs: "?cands = c # cs"
    and pick: "(i, r) = fold (\<lambda>x best. if key (snd x) > key (snd best) then x else best) cs c"
    by (auto simp: findFirstDesc_def split: list.splits)
  have "(i, r) \<in> set (c # cs)" unfolding pick by (rule fold_pick_mem)
  then have "(i, r) \<in> set ?cands" using cs by simp
  then show ?thesis by (auto simp: in_set_enumerate_eq)
qed

lemma findFirstDesc_None:
  "findFirstDesc key wh rows = None \<longleftrightarrow> (\<forall>r \<in> set rows. \<not> wh r)"
proof -
  have "findFirstDesc key wh rows = None \<longleftrightarrow> filter (\<lambda>(i, r). wh r) (enumerate 0 rows) = []"
    by (auto simp: findFirstDesc_def split: list.splits)
  also have "\<dots> \<longleftrightarrow> (\<forall>x \<in> set (enumerate 0 rows). \<not> wh (snd x))"
    by (auto simp: filter_empty_conv)
  also have "\<dots> \<longleftrightarrow> (\<forall>r \<in> snd ` set (enumerate 0 rows). \<not> wh r)"
    by blast
  also have "snd ` set (enumerate 0 rows) = set rows"
    by (metis map_snd_enumerate set_map)
  finally show ?thesis .
qed

lemma fold_pick_max:
  fixes key :: "'r \<Rightarrow> int"
  shows "\<forall>x \<in> set (c # cs). key (snd x) \<le> key (snd (fold (\<lambda>x best. if key (snd x) > key (snd best) then x else best) cs c))"
proof (induction cs arbitrary: c)
  case Nil
  then show ?case by simp
next
  case (Cons d cs)
  let ?pick = "\<lambda>c. fold (\<lambda>x best. if key (snd x) > key (snd best) then x else best) cs c"
  show ?case
  proof (cases "key (snd d) > key (snd c)")
    case True
    have "\<forall>x \<in> set (d # cs). key (snd x) \<le> key (snd (?pick d))" by (rule Cons.IH)
    moreover have "key (snd c) \<le> key (snd (?pick d))"
      using True Cons.IH [of d] by (simp add: order.strict_implies_order order_trans)
    ultimately show ?thesis using True by simp
  next
    case False
    have "\<forall>x \<in> set (c # cs). key (snd x) \<le> key (snd (?pick c))" by (rule Cons.IH)
    moreover have "key (snd d) \<le> key (snd (?pick c))"
      using False Cons.IH [of c] by (simp add: order_trans not_less)
    ultimately show ?thesis using False by simp
  qed
qed

lemma findFirstDesc_max:
  fixes key :: "'r \<Rightarrow> int"
  assumes "findFirstDesc key wh rows = Some (i, r)"
  shows "\<forall>r' \<in> set rows. wh r' \<longrightarrow> key r' \<le> key r"
proof -
  let ?cands = "filter (\<lambda>(i, r). wh r) (enumerate 0 rows)"
  from assms obtain c cs where cs: "?cands = c # cs"
    and pick: "(i, r) = fold (\<lambda>x best. if key (snd x) > key (snd best) then x else best) cs c"
    by (auto simp: findFirstDesc_def split: list.splits)
  have m: "\<forall>x \<in> set ?cands. key (snd x) \<le> key r"
    using fold_pick_max [of c cs key] cs pick by (metis snd_conv)
  show ?thesis
  proof (intro ballI impI)
    fix r' assume "r' \<in> set rows" "wh r'"
    then obtain j where "j < length rows" "rows ! j = r'" by (auto simp: in_set_conv_nth)
    then have "(j, r') \<in> set ?cands" using \<open>wh r'\<close> by (auto simp: in_set_enumerate_eq)
    then show "key r' \<le> key r" using m by fastforce
  qed
qed

lemma getActiveOTP_Some:
  assumes "getActiveOTP answers tbl acc ph now = Some (i, r)"
  shows "answers \<and> i < length tbl \<and> tbl ! i = r \<and> accountId r = acc \<and> recipient r = ph
         \<and> status r = PENDING \<and> expiresAt r > now"
proof -
  have a: answers using assms by (auto simp: getActiveOTP_def split: if_splits)
  have "findFirstDesc createdAt
          (\<lambda>r. accountId r = acc \<and> recipient r = ph \<and> status r = PENDING \<and> expiresAt r > now) tbl
        = Some (i, r)"
    using assms a by (simp add: getActiveOTP_def)
  from findFirstDesc_Some [OF this] a show ?thesis by simp
qed

subsection \<open>Pending rows\<close>

lemma filter_update_le:
  assumes "P y \<Longrightarrow> i < length xs \<Longrightarrow> P (xs ! i)"
  shows "length (filter P (xs[i := y])) \<le> length (filter P xs)"
  using assms
proof (induction xs arbitrary: i)
  case Nil
  then show ?case by simp
next
  case (Cons x xs)
  show ?case
  proof (cases i)
    case 0
    then show ?thesis using Cons.prems by auto
  next
    case (Suc k)
    have "length (filter P (xs[k := y])) \<le> length (filter P xs)"
      using Cons.prems Suc by (intro Cons.IH) auto
    then show ?thesis using Suc by simp
  qed
qed

lemma pendingFor_updateRow_le:
  assumes "\<And>r. accountId (f r) = accountId r \<and> recipient (f r) = recipient r
                \<and> (status (f r) = PENDING \<longrightarrow> status r = PENDING)"
  shows "length (pendingFor (updateRow tbl i f) acc ph) \<le> length (pendingFor tbl acc ph)"
  unfolding pendingFor_def updateRow_def
  by (rule filter_update_le) (use assms in \<open>auto simp: isPendingFor_def\<close>)

lemma pendingFor_invalidate_same:
  "pendingFor (invalidatePendingOTPs tbl acc ph) acc ph = []"
  by (induction tbl) (auto simp: pendingFor_def isPendingFor_def invalidatePendingOTPs_def)

lemma pendingFor_invalidate_le:
  "length (pendingFor (invalidatePendingOTPs tbl acc ph) a p) \<le> length (pendingFor tbl a p)"
  by (induction tbl) (auto simp: pendingFor_def isPendingFor_def invalidatePendingOTPs_def)

lemma splitFirst_composite:
  "95 \<notin> set acc \<Longrightarrow> splitFirst (acc @ str ''_'' @ ph) = acc"
  by (induction acc) (auto simp: splitFirst_def str_def)

subsection \<open>Row updates\<close>

lemma updateRow_length [simp]: "length (updateRow tbl i f) = length tbl"
  by (simp add: updateRow_def)

lemma updateRow_other: "k \<noteq> i \<Longrightarrow> updateRow tbl k f ! i = tbl ! i"
  by (simp add: updateRow_def)

lemma updateRow_same: "i < length tbl \<Longrightarrow> updateRow tbl i f ! i = f (tbl ! i)"
  by (simp add: updateRow_def)

lemma updateRow_keeps:
  assumes "\<forall>r \<in> set tbl. \<not> Q r" and "\<And>r. Q (f r) \<Longrightarrow> Q r"
  shows "\<forall>r \<in> set (updateRow tbl i f). \<not> Q r"
proof
  fix r assume "r \<in> set (updateRow tbl i f)"
  then have "r \<in> insert (f (tbl ! i)) (set tbl)"
    unfolding updateRow_def using set_update_subset_insert by fastforce
  then consider "r \<in> set tbl" | "r = f (tbl ! i)" "r \<notin> set tbl" by auto
  then show "\<not> Q r"
  proof cases
    case 1
    then show ?thesis using assms(1) by simp
  next
    case 2
    show ?thesis
    proof (cases "i < length tbl")
      case True
      then have "\<not> Q (tbl ! i)" using assms(1) by simp
      then show ?thesis using assms(2) 2 by blast
    next
      case False
      then have "updateRow tbl i f = tbl" by (simp add: updateRow_def list_update_beyond)
      then show ?thesis using \<open>r \<in> set (updateRow tbl i f)\<close> 2 by simp
    qed
  qed
qed

lemma invalidate_length [simp]: "length (invalidatePendingOTPs tbl acc ph) = length tbl"
  by (simp add: invalidatePendingOTPs_def)

lemma invalidate_terminal:
  "i < length tbl \<Longrightarrow> status (tbl ! i) \<noteq> PENDING \<Longrightarrow> invalidatePendingOTPs tbl acc ph ! i = tbl ! i"
  by (simp add: invalidatePendingOTPs_def)

lemma storeOTP_fst [simp]: "fst (storeOTP tbl now d) = length tbl"
  by (simp add: storeOTP_def)

lemma storeOTP_length [simp]: "length (snd (storeOTP tbl now d)) = Suc (length tbl)"
  by (simp add: storeOTP_def)

lemma storeOTP_old: "i < length tbl \<Longrightarrow> snd (storeOTP tbl now d) ! i = tbl ! i"
  by (simp add: storeOTP_def nth_append)

subsection \<open>verifyOTP, branch by branch\<close>

lemma verifyOTP_none:
  "getActiveOTP answers tbl acc (normalizePhoneNumber (vr_phone request)) t1 = None \<Longrightarrow>
   verifyOTP rt answers tbl acc request t1 t2 = (tbl, verifyFailure (normalizePhoneNumber (vr_phone request)) NoActiveOTPFound)"
  by (simp add: verifyOTP_def)

lemma no_pending_no_active:
  "\<forall>r \<in> set tbl. \<not> isPendingFor acc ph r \<Longrightarrow> getActiveOTP answers tbl acc ph now = None"
  by (auto simp add: getActiveOTP_def findFirstDesc_None isPendingFor_def)

lemma verifyOTP_length [simp]: "length (fst (verifyOTP rt answers tbl acc request t1 t2)) = length tbl"
  by (simp add: verifyOTP_def Let_def incrementAttempts_def markAsFailed_def markAsExpired_def
        markAsVerified_def split: option.split prod.split)

lemma verifyOTP_keeps_no_pending:
  assumes "\<forall>r \<in> set tbl. \<not> isPendingFor a p r"
  shows "\<forall>r \<in> set (fst (verifyOTP rt answers tbl acc request t1 t2)). \<not> isPendingFor a p r"
proof -
  have e: "\<forall>r \<in> set (markAsExpired tbl i). \<not> isPendingFor a p r" for i
    unfolding markAsExpired_def by (rule updateRow_keeps [OF assms]) (simp add: isPendingFor_def)
  have f: "\<forall>r \<in> set (markAsFailed tbl i). \<not> isPendingFor a p r" for i
    unfolding markAsFailed_def by (rule updateRow_keeps [OF assms]) (simp add: isPendingFor_def)
  have v: "\<forall>r \<in> set (markAsVerified tbl i t). \<not> isPendingFor a p r" for i t
    unfolding markAsVerified_def by (rule updateRow_keeps [OF assms]) (simp add: isPendingFor_def)
  have n: "\<forall>r \<in> set (fst (incrementAttempts tbl i)). \<not> isPendingFor a p r" for i
    unfolding incrementAttempts_def Let_def fst_conv
    by (rule updateRow_keeps [OF assms]) (simp add: isPendingFor_def)
  have nf: "\<forall>r \<in> set (markAsFailed (fst (incrementAttempts tbl i)) i). \<not> isPendingFor a p r" for i
    unfolding markAsFailed_def by (rule updateRow_keeps [OF n]) (simp add: isPendingFor_def)
  show ?thesis
    using assms e f v n nf
    by (simp add: verifyOTP_def Let_def split: option.split prod.split)
qed

lemma verifyOTP_keeps_terminal:
  assumes "i < length tbl" "status (tbl ! i) \<noteq> PENDING"
  shows "fst (verifyOTP rt answers tbl acc request t1 t2) ! i = tbl ! i"
proof (cases "getActiveOTP answers tbl acc (normalizePhoneNumber (vr_phone request)) t1")
  case None
  then show ?thesis by (simp add: verifyOTP_none)
next
  case (Some a)
  obtain k otp where a: "a = (k, otp)" by (cases a)
  have "status (tbl ! k) = PENDING" using getActiveOTP_Some Some a by blast
  then have ki: "k \<noteq> i" using assms by auto
  show ?thesis
    using Some a ki
    by (simp add: verifyOTP_def Let_def incrementAttempts_def markAsFailed_def markAsExpired_def
          markAsVerified_def updateRow_other)
qed

subsection \<open>Storing after invalidating\<close>

lemma store_after_invalidate_pending:
  assumes u: "95 \<notin> set acc"
    and inv: "\<forall>a p. length (pendingFor tbl a p) \<le> 1"
    and d: "sd_id d = acc @ str ''_'' @ ph" "sd_phone d = ph"
  shows "length (pendingFor (snd (storeOTP (invalidatePendingOTPs tbl acc ph) now d)) a p) \<le> 1"
proof (cases "a = acc \<and> p = ph")
  case True
  then show ?thesis
    by (simp add: storeOTP_def pendingFor_def [of "_ @ _"] pendingFor_invalidate_same [unfolded pendingFor_def])
next
  case False
  have "length (pendingFor (invalidatePendingOTPs tbl acc ph) a p) \<le> 1"
    using pendingFor_invalidate_le [of tbl acc ph a p] inv
    by (meson le_trans)
  then show ?thesis
    using False u d
    by (auto simp add: storeOTP_def pendingFor_def isPendingFor_def splitFirst_composite)
qed

lemma markAsFailed_pending_le:
  "length (pendingFor (markAsFailed tbl i) a p) \<le> length (pendingFor tbl a p)"
  unfolding markAsFailed_def by (rule pendingFor_updateRow_le) simp

lemma markAsExpired_pending_le:
  "length (pendingFor (markAsExpired tbl i) a p) \<le> length (pendingFor tbl a p)"
  unfolding markAsExpired_def by (rule pendingFor_updateRow_le) simp

lemma markAsVerified_pending_le:
  "length (pendingFor (markAsVerified tbl i t) a p) \<le> length (pendingFor tbl a p)"
  unfolding markAsVerified_def by (rule pendingFor_updateRow_le) simp

lemma incrementAttempts_pending_le:
  "length (pendingFor (fst (incrementAttempts tbl i)) a p) \<le> length (pendingFor tbl a p)"
  unfolding incrementAttempts_def Let_def fst_conv by (rule pendingFor_updateRow_le) simp

lemma singlePending_le:
  "singlePending tbl \<Longrightarrow> (\<And>a p. length (pendingFor tbl' a p) \<le> length (pendingFor tbl a p))
   \<Longrightarrow> singlePending tbl'"
  unfolding singlePending_def by (meson le_trans)

lemma singlePending_markAsFailed: "singlePending tbl \<Longrightarrow> singlePending (markAsFailed tbl i)"
  by (erule singlePending_le) (rule markAsFailed_pending_le)

lemma singlePending_markAsExpired: "singlePending tbl \<Longrightarrow> singlePending (markAsExpired tbl i)"
  by (erule singlePending_le) (rule markAsExpired_pending_le)

lemma singlePending_markAsVerified: "singlePending tbl \<Longrightarrow> singlePending (markAsVerified tbl i t)"
  by (erule singlePending_le) (rule markAsVerified_pending_le)

lemma singlePending_incrementAttempts: "singlePending tbl \<Longrightarrow> singlePending (fst (incrementAttempts tbl i))"
  by (erule singlePending_le) (rule incrementAttempts_pending_le)

lemma singlePending_store_after_invalidate:
  assumes "95 \<notin> set acc" "singlePending tbl" "sd_id d = acc @ str ''_'' @ ph" "sd_phone d = ph"
  shows "singlePending (snd (storeOTP (invalidatePendingOTPs tbl acc ph) now d))"
  using store_after_invalidate_pending [OF assms(1) _ assms(3,4)] assms(2)
  unfolding singlePending_def by blast

lemma requestOTP_single_pending:
  assumes u: "95 \<notin> set acc" and inv: "singlePending tbl"
  shows "singlePending (fst (requestOTP rt senders rnd smsOk answers tbl acc request now))"
  using inv
  by (simp add: requestOTP_def Let_def singlePending_store_after_invalidate [OF u inv]
        singlePending_markAsFailed split: option.split)

lemma resendOTP_single_pending:
  assumes u: "95 \<notin> set acc" and inv: "singlePending tbl"
  shows "singlePending (fst (resendOTP rt senders rnd smsOk answers tbl acc rphone now))"
  using inv
  by (simp add: resendOTP_def Let_def singlePending_store_after_invalidate [OF u inv]
        singlePending_markAsFailed split: option.split prod.split)

lemma verifyOTP_single_pending:
  assumes inv: "singlePending tbl"
  shows "singlePending (fst (verifyOTP rt answers tbl acc request t1 t2))"
  using inv
  by (simp add: verifyOTP_def Let_def singlePending_markAsFailed singlePending_markAsExpired
        singlePending_markAsVerified singlePending_incrementAttempts split: option.split prod.split)

lemma otpStep_single_pending:
  assumes "95 \<notin> set (callAccount c)" "singlePending tbl"
  shows "singlePending (otpStep rt senders tbl c)"
  using assms
  by (cases c) (simp_all add: requestOTP_single_pending resendOTP_single_pending verifyOTP_single_pending)

lemma otpRun_single_pending:
  assumes "\<forall>c \<in> set calls. 95 \<notin> set (callAccount c)" "singlePending tbl"
  shows "singlePending (otpRun rt senders tbl calls)"
  using assms
proof (induction calls arbitrary: tbl)
  case Nil
  then show ?case by (simp add: otpRun_def)
next
  case (Cons c calls)
  have "singlePending (otpStep rt senders tbl c)"
    using Cons.prems by (intro otpStep_single_pending) auto
  then have "singlePending (otpRun rt senders (otpStep rt senders tbl c) calls)"
    using Cons.prems by (intro Cons.IH) auto
  then show ?case by (simp add: otpRun_def)
qed

subsection \<open>Terminal rows stay as they are\<close>

lemma markAsFailed_other: "k \<noteq> i \<Longrightarrow> markAsFailed tbl k ! i = tbl ! i"
  by (simp add: markAsFailed_def updateRow_other)

lemma markAsFailed_length [simp]: "length (markAsFailed tbl k) = length tbl"
  by (simp add: markAsFailed_def)

lemma store_step_keeps_terminal:
  assumes "i < length tbl" "status (tbl ! i) \<noteq> PENDING"
  shows "snd (storeOTP (invalidatePendingOTPs tbl acc ph) now d) ! i = tbl ! i"
    and "markAsFailed (snd (storeOTP (invalidatePendingOTPs tbl acc ph) now d)) (length tbl) ! i = tbl ! i"
  using assms by (simp_all add: storeOTP_old invalidate_terminal markAsFailed_other)

lemma requestOTP_keeps_terminal:
  assumes "i < length tbl" "status (tbl ! i) \<noteq> PENDING"
  shows "fst (requestOTP rt senders rnd smsOk answers tbl acc request now) ! i = tbl ! i"
  using assms by (simp add: requestOTP_def Let_def store_step_keeps_terminal split: option.split)

lemma resendOTP_keeps_terminal:
  assumes "i < length tbl" "status (tbl ! i) \<noteq> PENDING"
  shows "fst (resendOTP rt senders rnd smsOk answers tbl acc rphone now) ! i = tbl ! i"
  using assms
  by (simp add: resendOTP_def Let_def store_step_keeps_terminal split: option.split prod.split)

lemma requestOTP_length_ge: "length tbl \<le> length (fst (requestOTP rt senders rnd smsOk answers tbl acc request now))"
  by (simp add: requestOTP_def Let_def split: option.split)

lemma resendOTP_length_ge: "length tbl \<le> length (fst (resendOTP rt senders rnd smsOk answers tbl acc rphone now))"
  by (simp add: resendOTP_def Let_def split: option.split prod.split)

lemma otpStep_keeps_terminal:
  assumes "i < length tbl" "status (tbl ! i) \<noteq> PENDING"
  shows "i < length (otpStep rt senders tbl c) \<and> otpStep rt senders tbl c ! i = tbl ! i"
proof (cases c)
  case (Request acc request now rnd smsOk answers)
  then show ?thesis
    using assms requestOTP_keeps_terminal [OF assms] requestOTP_length_ge [of tbl rt senders rnd smsOk answers acc request now]
    by simp
next
  case (Resend acc rphone now rnd smsOk answers)
  then show ?thesis
    using assms resendOTP_keeps_terminal [OF assms] resendOTP_length_ge [of tbl rt senders rnd smsOk answers acc rphone now]
    by simp
next
  case (Verify acc request t1 t2 answers)
  then show ?thesis using assms verifyOTP_keeps_terminal [OF assms] by simp
qed

lemma otpRun_keeps_terminal:
  assumes "i < length tbl" "status (tbl ! i) \<noteq> PENDING"
  shows "i < length (otpRun rt senders tbl calls) \<and> otpRun rt senders tbl calls ! i = tbl ! i"
  using assms
proof (induction calls arbitrary: tbl)
  case Nil
  then show ?case by (simp add: otpRun_def)
next
  case (Cons c calls)
  have s: "i < length (otpStep rt senders tbl c) \<and> otpStep rt senders tbl c ! i = tbl ! i"
    using Cons.prems by (rule otpStep_keeps_terminal)
  then have "i < length (otpRun rt senders (otpStep rt senders tbl c) calls)
             \<and> otpRun rt senders (otpStep rt senders tbl c) calls ! i = otpStep rt senders tbl c ! i"
    using Cons.prems by (intro Cons.IH) auto
  then show ?case using s by (simp add: otpRun_def)
qed

subsection \<open>No active OTP after the PENDING row is closed\<close>

lemma close_pending_row:
  assumes only: "\<forall>j < length tbl. j \<noteq> i \<longrightarrow> \<not> isPendingFor acc ph (tbl ! j)"
    and i: "i < length tbl"
    and f: "status (f (tbl ! i)) \<noteq> PENDING"
  shows "\<forall>r \<in> set (updateRow tbl i f). \<not> isPendingFor acc ph r"
proof
  fix r assume "r \<in> set (updateRow tbl i f)"
  then obtain j where j: "j < length tbl" "r = updateRow tbl i f ! j"
    by (auto simp: in_set_conv_nth)
  show "\<not> isPendingFor acc ph r"
  proof (cases "j = i")
    case True
    then have "r = f (tbl ! i)" using j i by (simp add: updateRow_same)
    then show ?thesis using f by (simp add: isPendingFor_def)
  next
    case False
    then have r: "r = tbl ! j" using j by (simp add: updateRow_other)
    then show ?thesis using only j(1) False by simp
  qed
qed

lemma noPending_iff: "noPending tbl a p \<longleftrightarrow> (\<forall>r \<in> set tbl. \<not> isPendingFor a p r)"
  by (simp add: noPending_def pendingFor_def filter_empty_conv)

lemma close_pending_row_noPending:
  assumes "\<forall>j < length tbl. j \<noteq> i \<longrightarrow> \<not> isPendingFor acc ph (tbl ! j)"
    and "i < length tbl"
    and "status (f (tbl ! i)) \<noteq> PENDING"
  shows "noPending (updateRow tbl i f) acc ph"
  unfolding noPending_iff using assms by (rule close_pending_row)

lemma invalidate_keeps_no_pending:
  assumes "noPending tbl a p"
  shows "noPending (invalidatePendingOTPs tbl acc ph) a p"
  using assms by (auto simp: noPending_iff invalidatePendingOTPs_def isPendingFor_def)

lemma store_keeps_no_pending:
  assumes "noPending tbl a p"
    and "\<not> (splitFirst (sd_id d) = a \<and> sd_phone d = p)"
  shows "noPending (snd (storeOTP tbl now d)) a p"
  using assms by (auto simp: noPending_iff storeOTP_def isPendingFor_def)

lemma markAsFailed_keeps_no_pending:
  assumes "noPending tbl a p"
  shows "noPending (markAsFailed tbl i) a p"
  unfolding noPending_iff markAsFailed_def
  by (rule updateRow_keeps [OF assms [unfolded noPending_iff]]) (simp add: isPendingFor_def)

lemma verifyOTP_keeps_noPending:
  assumes "noPending tbl a p"
  shows "noPending (fst (verifyOTP rt answers tbl acc request t1 t2)) a p"
  unfolding noPending_iff by (rule verifyOTP_keeps_no_pending [OF assms [unfolded noPending_iff]])

lemma store_step_keeps_no_pending:
  assumes np: "noPending tbl a p"
    and ns: "\<not> (splitFirst (acc @ str ''_'' @ ph) = a \<and> ph = p)"
    and d: "sd_id d = acc @ str ''_'' @ ph" "sd_phone d = ph"
  shows "noPending (snd (storeOTP (invalidatePendingOTPs tbl acc ph) now d)) a p"
    and "noPending (markAsFailed (snd (storeOTP (invalidatePendingOTPs tbl acc ph) now d)) k) a p"
proof -
  show s: "noPending (snd (storeOTP (invalidatePendingOTPs tbl acc ph) now d)) a p"
    using ns d by (intro store_keeps_no_pending invalidate_keeps_no_pending np) simp
  show "noPending (markAsFailed (snd (storeOTP (invalidatePendingOTPs tbl acc ph) now d)) k) a p"
    by (rule markAsFailed_keeps_no_pending [OF s])
qed

lemma requestOTP_keeps_no_pending:
  assumes np: "noPending tbl a p"
    and ns: "\<not> storesFor a p (Request acc request now rnd smsOk answers)"
  shows "noPending (fst (requestOTP rt senders rnd smsOk answers tbl acc request now)) a p"
proof -
  have ns': "\<not> (splitFirst (acc @ str ''_'' @ normalizePhoneNumber (rq_phone request)) = a
                \<and> normalizePhoneNumber (rq_phone request) = p)"
    using ns by simp
  show ?thesis
    using np
    by (simp add: requestOTP_def Let_def store_step_keeps_no_pending [OF np ns'] split: option.split)
qed

lemma resendOTP_keeps_no_pending:
  assumes np: "noPending tbl a p"
    and ns: "\<not> storesFor a p (Resend acc rphone now rnd smsOk answers)"
  shows "noPending (fst (resendOTP rt senders rnd smsOk answers tbl acc rphone now)) a p"
proof -
  have ns': "\<not> (splitFirst (acc @ str ''_'' @ normalizePhoneNumber rphone) = a
                \<and> normalizePhoneNumber rphone = p)"
    using ns by simp
  show ?thesis
    using np
    by (simp add: resendOTP_def Let_def store_step_keeps_no_pending [OF np ns']
          split: option.split prod.split)
qed

lemma otpStep_keeps_no_pending:
  assumes "noPending tbl a p" "\<not> storesFor a p c"
  shows "noPending (otpStep rt senders tbl c) a p"
proof (cases c)
  case (Request acc request now rnd smsOk answers)
  then show ?thesis using requestOTP_keeps_no_pending [OF assms(1)] assms(2) by simp
next
  case (Resend acc rphone now rnd smsOk answers)
  then show ?thesis using resendOTP_keeps_no_pending [OF assms(1)] assms(2) by simp
next
  case (Verify acc request t1 t2 answers)
  then show ?thesis using verifyOTP_keeps_noPending [OF assms(1)] by simp
qed

lemma otpRun_keeps_no_pending:
  assumes "\<forall>c \<in> set calls. \<not> storesFor a p c" "noPending tbl a p"
  shows "noPending (otpRun rt senders tbl calls) a p"
  using assms
proof (induction calls arbitrary: tbl)
  case Nil
  then show ?case by (simp add: otpRun_def)
next
  case (Cons c calls)
  have "noPending (otpStep rt senders tbl c) a p"
    using Cons.prems by (intro otpStep_keeps_no_pending) auto
  then have "noPending (otpRun rt senders (otpStep rt senders tbl c) calls) a p"
    using Cons.prems by (intro Cons.IH) auto
  then show ?case by (simp add: otpRun_def)
qed

lemma closed_then_no_active:
  assumes "noPending tbl acc (normalizePhoneNumber ph)"
    and "\<forall>c \<in> set calls. \<not> storesFor acc (normalizePhoneNumber ph) c"
    and "normalizePhoneNumber ph' = normalizePhoneNumber ph"
  shows "snd (verifyOTP rt answers (otpRun rt senders tbl calls) acc \<lparr>vr_phone = ph', vr_code = code'\<rparr> t1' t2')
         = verifyFailure (normalizePhoneNumber ph) NoActiveOTPFound"
proof -
  have "noPending (otpRun rt senders tbl calls) acc (normalizePhoneNumber ph)"
    using otpRun_keeps_no_pending [OF assms(2,1)] .
  then have "getActiveOTP answers (otpRun rt senders tbl calls) acc (normalizePhoneNumber ph) t1' = None"
    unfolding noPending_iff by (rule no_pending_no_active)
  then show ?thesis using assms(3) by (simp add: verifyOTP_none)
qed

lemma fail_after_increment:
  "i < length tbl \<Longrightarrow>
   markAsFailed (fst (incrementAttempts tbl i)) i
   = updateRow tbl i (\<lambda>r. r\<lparr>attempts := attempts r + 1, status := FAILED\<rparr>)"
  by (simp add: markAsFailed_def incrementAttempts_def Let_def updateRow_def)

lemma active_of_newest:
  assumes i: "i < length tbl"
    and p: "accountId (tbl ! i) = acc" "recipient (tbl ! i) = ph" "status (tbl ! i) = PENDING"
    and e: "t1 < expiresAt (tbl ! i)"
    and newest: "\<forall>j < length tbl. j \<noteq> i \<and> isPendingFor acc ph (tbl ! j) \<and> t1 < expiresAt (tbl ! j)
                   \<longrightarrow> createdAt (tbl ! j) < createdAt (tbl ! i)"
  shows "getActiveOTP True tbl acc ph t1 = Some (i, tbl ! i)"
proof -
  let ?wh = "\<lambda>r. accountId r = acc \<and> recipient r = ph \<and> status r = PENDING \<and> expiresAt r > t1"
  have m: "tbl ! i \<in> set tbl" using i by simp
  have w: "?wh (tbl ! i)" using p e by simp
  have "findFirstDesc createdAt ?wh tbl \<noteq> None"
    unfolding findFirstDesc_None using m w by blast
  then obtain j r where f: "findFirstDesc createdAt ?wh tbl = Some (j, r)" by auto
  have j: "j < length tbl" "tbl ! j = r" "?wh r"
    using findFirstDesc_Some [OF f] by simp_all
  have "createdAt (tbl ! i) \<le> createdAt r"
    using findFirstDesc_max [OF f] m w by blast
  moreover have "createdAt (tbl ! j) < createdAt (tbl ! i)" if "j \<noteq> i"
    using newest j that by (auto simp: isPendingFor_def)
  ultimately have "j = i" using j(2) by fastforce
  then show ?thesis using f j by (simp add: getActiveOTP_def)
qed

lemma requestOTP_take:
  assumes "answers" "checkRateLimit answers tbl acc (normalizePhoneNumber (rq_phone request)) 30 now = None"
  shows "take (length tbl) (fst (requestOTP rt senders rnd smsOk answers tbl acc request now))
         = invalidatePendingOTPs tbl acc (normalizePhoneNumber (rq_phone request))"
  using assms
  by (simp add: requestOTP_def Let_def storeOTP_def markAsFailed_def updateRow_def)

lemma resendOTP_take:
  assumes "answers" "checkRateLimit answers tbl acc (normalizePhoneNumber rphone) 30 now = None"
    and "findFirstDesc createdAt (\<lambda>r. accountId r = acc \<and> recipient r = normalizePhoneNumber rphone) tbl = Some (j, lastOTP)"
  shows "take (length tbl) (fst (resendOTP rt senders rnd smsOk answers tbl acc rphone now))
         = invalidatePendingOTPs tbl acc (normalizePhoneNumber rphone)"
  using assms
  by (simp add: resendOTP_def Let_def storeOTP_def markAsFailed_def updateRow_def)

lemma singlePending_Nil: "singlePending []"
  by (simp add: singlePending_def pendingFor_def)

lemma resendOTP_shape:
  assumes "answers" "checkRateLimit answers tbl acc (normalizePhoneNumber rphone) 30 now = None"
    and "findFirstDesc createdAt (\<lambda>r. accountId r = acc \<and> recipient r = normalizePhoneNumber rphone) tbl = Some (j, lastOTP)"
  shows "codeLength (fst (resendOTP rt senders rnd smsOk answers tbl acc rphone now) ! length tbl) = codeLength lastOTP
    \<and> maxAttempts (fst (resendOTP rt senders rnd smsOk answers tbl acc rphone now) ! length tbl) = maxAttempts lastOTP
    \<and> map_option sms_code (fst (snd (resendOTP rt senders rnd smsOk answers tbl acc rphone now)))
        = Some (generateCode rnd (codeLength lastOTP) NUMERIC)"
  using assms
  by (simp add: resendOTP_def Let_def storeOTP_def markAsFailed_def updateRow_def nth_append)

lemma charAt_subset: "set (charAt s i) \<subseteq> set s"
  by (auto simp: charAt_def nat_less_iff)

lemma generateCode_subset: "set (generateCode rnd len t) \<subseteq> set (pinCharacters t)"
  using charAt_subset by (fastforce simp: generateCode_concat)

section \<open>Properties of the verification service\<close>

lemma verifyOTP_success_iff:
  assumes "getActiveOTP answers tbl acc (normalizePhoneNumber ph) t1 = Some (i, r)"
    and "\<not> isExpired t2 (expiresAt r)" and "attempts r < maxAttempts r"
  shows "success (snd (verifyOTP rt answers tbl acc \<lparr>vr_phone = ph, vr_code = c\<rparr> t1 t2))
         \<longleftrightarrow> verifyCode rt (toUpperCase rt c) (codeHash r)"
  using assms by (simp add: verifyOTP_def Let_def verifyFailure_def)

lemma verifyOTP_success_only:
  assumes "success (snd (verifyOTP rt answers tbl acc \<lparr>vr_phone = ph, vr_code = c\<rparr> t1 t2))"
  shows "\<exists>i r. getActiveOTP answers tbl acc (normalizePhoneNumber ph) t1 = Some (i, r)
               \<and> verifyCode rt (toUpperCase rt c) (codeHash r)"
  using assms
  by (auto simp add: verifyOTP_def Let_def verifyFailure_def split: option.splits prod.splits if_splits)

lemma pinCharacters_upper:
  "set (pinCharacters t) \<subseteq> {ch. (48 \<le> ch \<and> ch \<le> 57) \<or> (65 \<le> ch \<and> ch \<le> 90)}"
  by (cases t) (auto simp: pinCharacters_alphabets)

text \<open>
  C10. \<open>verifyOTP\<close> upper-cases the submitted code before the comparison with the stored
  hash. For the row that \<open>getActiveOTP\<close> returns, when it has not expired and has attempts
  left, the call succeeds exactly when \<open>verifyCode\<close> accepts the upper-cased code against
  the hash of that row; and a call never succeeds unless there is such a row and
  \<open>verifyCode\<close> accepts the upper-cased code against its hash. So a code and its
  upper-cased form give the same table and the same response, for every table, account,
  phone and clock, and whether the table answers or not; here the hypothesis is that
  \<open>toUpperCase\<close> leaves an upper-cased string as it is. A generated code holds digits and
  upper-case letters only, whatever the draws.
\<close>

theorem verifyOTP_case_insensitive:
  assumes "toUpperCase rt (toUpperCase rt c) = toUpperCase rt c"
  shows "verifyOTP rt answers tbl acc \<lparr>vr_phone = ph, vr_code = c\<rparr> t1 t2
           = verifyOTP rt answers tbl acc \<lparr>vr_phone = ph, vr_code = toUpperCase rt c\<rparr> t1 t2
       \<and> (\<forall>i r. getActiveOTP answers tbl acc (normalizePhoneNumber ph) t1 = Some (i, r)
                 \<and> \<not> isExpired t2 (expiresAt r) \<and> attempts r < maxAttempts r \<longrightarrow>
              (success (snd (verifyOTP rt answers tbl acc \<lparr>vr_phone = ph, vr_code = c\<rparr> t1 t2))
               \<longleftrightarrow> verifyCode rt (toUpperCase rt c) (codeHash r)))
       \<and> (success (snd (verifyOTP rt answers tbl acc \<lparr>vr_phone = ph, vr_code = c\<rparr> t1 t2)) \<longrightarrow>
              (\<exists>i r. getActiveOTP answers tbl acc (normalizePhoneNumber ph) t1 = Some (i, r)
                     \<and> verifyCode rt (toUpperCase rt c) (codeHash r)))
       \<and> set (generateCode rnd len t) \<subseteq> {ch. (48 \<le> ch \<and> ch \<le> 57) \<or> (65 \<le> ch \<and> ch \<le> 90)}"
proof -
  have e: "verifyOTP rt answers tbl acc \<lparr>vr_phone = ph, vr_code = c\<rparr> t1 t2
           = verifyOTP rt answers tbl acc \<lparr>vr_phone = ph, vr_code = toUpperCase rt c\<rparr> t1 t2"
    using assms by (simp add: verifyOTP_def Let_def split: option.split prod.split)
  have g: "set (generateCode rnd len t) \<subseteq> {ch. (48 \<le> ch \<and> ch \<le> 57) \<or> (65 \<le> ch \<and> ch \<le> 90)}"
    using generateCode_subset [of rnd len t] pinCharacters_upper [of t] by (rule subset_trans)
  show ?thesis
    using e g verifyOTP_success_iff [of answers tbl acc ph t1 _ _ t2 rt c]
      verifyOTP_success_only [of rt answers tbl acc ph c t1 t2]
    by blast
qed

theorem verifyOTP_case_insensitive_witness:
  "verifyOTP sampleRuntime True [sampleRow] (str ''acct1'') \<lparr>vr_phone = samplePhone, vr_code = str ''ab12cd''\<rparr> 1000 1001
   = verifyOTP sampleRuntime True [sampleRow] (str ''acct1'') \<lparr>vr_phone = samplePhone, vr_code = str ''AB12CD''\<rparr> 1000 1001
   \<and> success (snd (verifyOTP sampleRuntime True [sampleRow] (str ''acct1'')
                     \<lparr>vr_phone = samplePhone, vr_code = str ''ab12cd''\<rparr> 1000 1001))
   \<and> \<not> success (snd (verifyOTP sampleRuntime True [sampleRow] (str ''acct1'')
                     \<lparr>vr_phone = samplePhone, vr_code = str ''ab12ce''\<rparr> 1000 1001))
   \<and> set (generateCode (\<lambda>i. of_nat i / 7) 6 ALPHANUMERIC)
       \<subseteq> {ch. (48 \<le> ch \<and> ch \<le> 57) \<or> (65 \<le> ch \<and> ch \<le> 90)}"
proof -
  have u: "toUpperCase sampleRuntime (str ''ab12cd'') = str ''AB12CD''" by code_simp
  have i: "toUpperCase sampleRuntime (toUpperCase sampleRuntime (str ''ab12cd''))
           = toUpperCase sampleRuntime (str ''ab12cd'')" by code_simp
  have i': "toUpperCase sampleRuntime (toUpperCase sampleRuntime (str ''ab12ce''))
           = toUpperCase sampleRuntime (str ''ab12ce'')" by code_simp
  have a: "getActiveOTP True [sampleRow] (str ''acct1'') (normalizePhoneNumber samplePhone) 1000
           = Some (0, sampleRow)" by code_simp
  have f: "\<not> isExpired 1001 (expiresAt sampleRow)" "attempts sampleRow < maxAttempts sampleRow"
    by (simp_all add: isExpired_def sampleRow_def)
  have good: "verifyCode sampleRuntime (toUpperCase sampleRuntime (str ''ab12cd'')) (codeHash sampleRow)"
    by code_simp
  have bad: "\<not> verifyCode sampleRuntime (toUpperCase sampleRuntime (str ''ab12ce'')) (codeHash sampleRow)"
    by code_simp
  note t = verifyOTP_case_insensitive [OF i, of True "[sampleRow]" "str ''acct1''" samplePhone 1000 1001
      "\<lambda>i. of_nat i / 7" 6 ALPHANUMERIC]
  note t' = verifyOTP_case_insensitive [OF i', of True "[sampleRow]" "str ''acct1''" samplePhone 1000 1001
      "\<lambda>i. of_nat i / 7" 6 ALPHANUMERIC]
  have 1: "verifyOTP sampleRuntime True [sampleRow] (str ''acct1'') \<lparr>vr_phone = samplePhone, vr_code = str ''ab12cd''\<rparr> 1000 1001
   = verifyOTP sampleRuntime True [sampleRow] (str ''acct1'') \<lparr>vr_phone = samplePhone, vr_code = str ''AB12CD''\<rparr> 1000 1001"
    using t u by simp
  have 2: "success (snd (verifyOTP sampleRuntime True [sampleRow] (str ''acct1'')
                     \<lparr>vr_phone = samplePhone, vr_code = str ''ab12cd''\<rparr> 1000 1001))"
    using t a f good by blast
  have 3: "\<not> success (snd (verifyOTP sampleRuntime True [sampleRow] (str ''acct1'')
                     \<lparr>vr_phone = samplePhone, vr_code = str ''ab12ce''\<rparr> 1000 1001))"
    using t' a f bad by blast
  have 4: "set (generateCode (\<lambda>i. of_nat i / 7) 6 ALPHANUMERIC)
       \<subseteq> {ch. (48 \<le> ch \<and> ch \<le> 57) \<or> (65 \<le> ch \<and> ch \<le> 90)}"
    using t by blast
  show ?thesis using 1 2 3 4 by blast
qed

lemma verifyOTP_lifecycle_active:
  assumes act: "getActiveOTP True tbl acc (normalizePhoneNumber ph) t1 = Some (i, r)"
    and fresh: "\<not> isExpired t2 (expiresAt r)"
    and att: "attempts r < maxAttempts r"
  shows
    "(verifyCode rt (toUpperCase rt code) (codeHash r) \<longrightarrow>
        success (snd (verifyOTP rt True tbl acc \<lparr>vr_phone = ph, vr_code = code\<rparr> t1 t2))
        \<and> status (fst (verifyOTP rt True tbl acc \<lparr>vr_phone = ph, vr_code = code\<rparr> t1 t2) ! i) = VERIFIED
        \<and> (\<forall>calls.
              status (otpRun rt senders (fst (verifyOTP rt True tbl acc \<lparr>vr_phone = ph, vr_code = code\<rparr> t1 t2)) calls ! i)
              = VERIFIED))
     \<and> (\<not> verifyCode rt (toUpperCase rt code) (codeHash r) \<longrightarrow>
        \<not> success (snd (verifyOTP rt True tbl acc \<lparr>vr_phone = ph, vr_code = code\<rparr> t1 t2))
        \<and> attempts (fst (verifyOTP rt True tbl acc \<lparr>vr_phone = ph, vr_code = code\<rparr> t1 t2) ! i) = attempts r + 1
        \<and> (attempts r + 1 < maxAttempts r \<longrightarrow>
              status (fst (verifyOTP rt True tbl acc \<lparr>vr_phone = ph, vr_code = code\<rparr> t1 t2) ! i) = PENDING)
        \<and> (maxAttempts r \<le> attempts r + 1 \<longrightarrow>
              status (fst (verifyOTP rt True tbl acc \<lparr>vr_phone = ph, vr_code = code\<rparr> t1 t2) ! i) = FAILED
              \<and> (\<forall>calls.
                    status (otpRun rt senders (fst (verifyOTP rt True tbl acc \<lparr>vr_phone = ph, vr_code = code\<rparr> t1 t2)) calls ! i)
                    = FAILED)))
     \<and> ((\<forall>j < length tbl. j \<noteq> i \<longrightarrow> \<not> isPendingFor acc (normalizePhoneNumber ph) (tbl ! j))
         \<and> (verifyCode rt (toUpperCase rt code) (codeHash r) \<or> maxAttempts r \<le> attempts r + 1) \<longrightarrow>
        noPending (fst (verifyOTP rt True tbl acc \<lparr>vr_phone = ph, vr_code = code\<rparr> t1 t2))
          acc (normalizePhoneNumber ph))"
proof -
  let ?ph = "normalizePhoneNumber ph"
  let ?res = "verifyOTP rt True tbl acc \<lparr>vr_phone = ph, vr_code = code\<rparr> t1 t2"
  have row: "i < length tbl" "tbl ! i = r"
    using getActiveOTP_Some [OF act] by simp_all
  have natt: "\<not> maxAttempts r \<le> attempts r" using att by simp
  show ?thesis
  proof (cases "verifyCode rt (toUpperCase rt code) (codeHash r)")
    case True
    have res: "?res = (markAsVerified tbl i t2,
        \<lparr>success = True, vp_phone = ?ph, verified = True, attemptsLeft = None, message = VerifiedSuccessfully\<rparr>)"
      using act fresh natt True by (simp add: verifyOTP_def)
    have st: "status (fst ?res ! i) = VERIFIED"
      using row by (simp add: res markAsVerified_def updateRow_same)
    have closed: "noPending (fst ?res) acc ?ph"
      if "\<forall>j < length tbl. j \<noteq> i \<longrightarrow> \<not> isPendingFor acc ?ph (tbl ! j)"
      unfolding res fst_conv markAsVerified_def
      by (rule close_pending_row_noPending [OF that row(1)]) simp
    have fin: "status (otpRun rt senders (fst ?res) calls ! i) = VERIFIED" for calls
      using otpRun_keeps_terminal [of i "fst ?res" rt senders calls] st row(1) by simp
    show ?thesis using True res st closed fin by simp
  next
    case False
    have inc: "fst (incrementAttempts tbl i) ! i = r\<lparr>attempts := attempts r + 1\<rparr>"
      "snd (incrementAttempts tbl i) = attempts r + 1"
      using row by (simp_all add: incrementAttempts_def Let_def updateRow_same)
    show ?thesis
    proof (cases "attempts r + 1 < maxAttempts r")
      case True
      have res: "?res = (fst (incrementAttempts tbl i),
         \<lparr>success = False, vp_phone = ?ph, verified = False,
          attemptsLeft = Some (int (maxAttempts r) - int (attempts r + 1)),
          message = InvalidCodeRemaining (int (maxAttempts r) - int (attempts r + 1))\<rparr>)"
        using act fresh natt False True inc by (simp add: verifyOTP_def Let_def)
      have p: "status r = PENDING" using getActiveOTP_Some [OF act] by simp
      have "status (fst ?res ! i) = PENDING \<and> attempts (fst ?res ! i) = attempts r + 1"
        using row inc p by (simp add: res)
      then show ?thesis using False True res by simp
    next
      case lim: False
      have res: "?res = (markAsFailed (fst (incrementAttempts tbl i)) i, verifyFailure ?ph InvalidCodeMaximumReached)"
        using act fresh natt False lim inc by (simp add: verifyOTP_def Let_def)
      have tb: "fst ?res = updateRow tbl i (\<lambda>r. r\<lparr>attempts := attempts r + 1, status := FAILED\<rparr>)"
        using res fail_after_increment [OF row(1)] by simp
      have st: "status (fst ?res ! i) = FAILED" "attempts (fst ?res ! i) = attempts r + 1"
        using row by (simp_all add: tb updateRow_same)
      have closed: "noPending (fst ?res) acc ?ph"
        if "\<forall>j < length tbl. j \<noteq> i \<longrightarrow> \<not> isPendingFor acc ?ph (tbl ! j)"
        unfolding tb by (rule close_pending_row_noPending [OF that row(1)]) simp
      have fin: "status (otpRun rt senders (fst ?res) calls ! i) = FAILED" for calls
        using otpRun_keeps_terminal [of i "fst ?res" rt senders calls] st row(1) by simp
      have ns: "\<not> success (snd ?res)" by (simp add: res verifyFailure_def)
      show ?thesis using False lim st closed fin ns by simp
    qed
  qed
qed

text \<open>
  C3, as the code has it. Let \<open>r\<close>, the row with id \<open>i\<close>, be a PENDING row of the account
  and the phone, not expired (its expiry after the clock \<open>t1\<close> read by \<open>getActiveOTP\<close> and
  not before the clock \<open>t2\<close> read by \<open>isExpired\<close>), with fewer attempts than allowed, and
  let every other unexpired PENDING row of the pair be older than \<open>r\<close>: then \<open>r\<close> is the
  row that \<open>getActiveOTP\<close> returns when the table answers. With a matching code
  \<open>verifyOTP\<close> succeeds and marks the row VERIFIED, and the row stays VERIFIED under
  every later call of the service. With a code that does not match, the call fails and
  the attempt counter goes up by one; when that reaches the limit the row is FAILED and
  stays FAILED under every later call of the service, so that no later verification
  succeeds against it. When \<open>r\<close> is the only PENDING row of the pair and the call has
  marked it VERIFIED or FAILED, every later verification for the pair answers that
  there is no active OTP, whatever code it brings, as long as no call of \<open>requestOTP\<close> or
  \<open>resendOTP\<close> that stores for the pair has come in between. When the table does not
  answer, the call answers that there is no active OTP and leaves the table as it is.
\<close>

theorem verifyOTP_lifecycle:
  assumes row: "i < length tbl" "tbl ! i = r"
    and pair: "accountId r = acc" "recipient r = normalizePhoneNumber ph"
    and pending: "status r = PENDING"
    and fresh: "t1 < expiresAt r" "\<not> isExpired t2 (expiresAt r)"
    and att: "attempts r < maxAttempts r"
    and newest: "\<forall>j < length tbl.
                   j \<noteq> i \<and> isPendingFor acc (normalizePhoneNumber ph) (tbl ! j) \<and> t1 < expiresAt (tbl ! j)
                   \<longrightarrow> createdAt (tbl ! j) < createdAt r"
  shows
    "(verifyCode rt (toUpperCase rt code) (codeHash r) \<longrightarrow>
        success (snd (verifyOTP rt True tbl acc \<lparr>vr_phone = ph, vr_code = code\<rparr> t1 t2))
        \<and> status (fst (verifyOTP rt True tbl acc \<lparr>vr_phone = ph, vr_code = code\<rparr> t1 t2) ! i) = VERIFIED
        \<and> (\<forall>calls.
              status (otpRun rt senders (fst (verifyOTP rt True tbl acc \<lparr>vr_phone = ph, vr_code = code\<rparr> t1 t2)) calls ! i)
              = VERIFIED))
     \<and> (\<not> verifyCode rt (toUpperCase rt code) (codeHash r) \<longrightarrow>
        \<not> success (snd (verifyOTP rt True tbl acc \<lparr>vr_phone = ph, vr_code = code\<rparr> t1 t2))
        \<and> attempts (fst (verifyOTP rt True tbl acc \<lparr>vr_phone = ph, vr_code = code\<rparr> t1 t2) ! i) = attempts r + 1
        \<and> (attempts r + 1 < maxAttempts r \<longrightarrow>
              status (fst (verifyOTP rt True tbl acc \<lparr>vr_phone = ph, vr_code = code\<rparr> t1 t2) ! i) = PENDING)
        \<and> (maxAttempts r \<le> attempts r + 1 \<longrightarrow>
              status (fst (verifyOTP rt True tbl acc \<lparr>vr_phone = ph, vr_code = code\<rparr> t1 t2) ! i) = FAILED
              \<and> (\<forall>calls.
                    status (otpRun rt senders (fst (verifyOTP rt True tbl acc \<lparr>vr_phone = ph, vr_code = code\<rparr> t1 t2)) calls ! i)
                    = FAILED)))
     \<and> ((\<forall>j < length tbl. j \<noteq> i \<longrightarrow> \<not> isPendingFor acc (normalizePhoneNumber ph) (tbl ! j))
         \<and> (verifyCode rt (toUpperCase rt code) (codeHash r) \<or> maxAttempts r \<le> attempts r + 1) \<longrightarrow>
        (\<forall>calls ph' code' t1' t2' answers'.
            (\<forall>c \<in> set calls. \<not> storesFor acc (normalizePhoneNumber ph) c)
            \<and> normalizePhoneNumber ph' = normalizePhoneNumber ph \<longrightarrow>
            snd (verifyOTP rt answers'
                   (otpRun rt senders (fst (verifyOTP rt True tbl acc \<lparr>vr_phone = ph, vr_code = code\<rparr> t1 t2)) calls)
                   acc \<lparr>vr_phone = ph', vr_code = code'\<rparr> t1' t2')
            = verifyFailure (normalizePhoneNumber ph) NoActiveOTPFound))
     \<and> verifyOTP rt False tbl acc \<lparr>vr_phone = ph, vr_code = code\<rparr> t1 t2
         = (tbl, verifyFailure (normalizePhoneNumber ph) NoActiveOTPFound)"
proof -
  let ?ph = "normalizePhoneNumber ph"
  let ?res = "verifyOTP rt True tbl acc \<lparr>vr_phone = ph, vr_code = code\<rparr> t1 t2"
  have act: "getActiveOTP True tbl acc ?ph t1 = Some (i, r)"
    using active_of_newest [OF row(1), of acc ?ph t1] row(2) pair pending fresh(1) newest
    by simp
  note l = verifyOTP_lifecycle_active [OF act fresh(2) att, of rt code senders]
  have later: "snd (verifyOTP rt answers' (otpRun rt senders (fst ?res) calls) acc
                      \<lparr>vr_phone = ph', vr_code = code'\<rparr> t1' t2')
               = verifyFailure ?ph NoActiveOTPFound"
    if "noPending (fst ?res) acc ?ph" "\<forall>c \<in> set calls. \<not> storesFor acc ?ph c"
       "normalizePhoneNumber ph' = ?ph" for calls ph' code' t1' t2' answers'
    using closed_then_no_active [OF that] .
  have down: "verifyOTP rt False tbl acc \<lparr>vr_phone = ph, vr_code = code\<rparr> t1 t2
              = (tbl, verifyFailure ?ph NoActiveOTPFound)"
    by (simp add: verifyOTP_def getActiveOTP_def)
  have 1: "verifyCode rt (toUpperCase rt code) (codeHash r) \<longrightarrow>
        success (snd ?res) \<and> status (fst ?res ! i) = VERIFIED
        \<and> (\<forall>calls. status (otpRun rt senders (fst ?res) calls ! i) = VERIFIED)"
    using l by blast
  have 2: "\<not> verifyCode rt (toUpperCase rt code) (codeHash r) \<longrightarrow>
        \<not> success (snd ?res) \<and> attempts (fst ?res ! i) = attempts r + 1
        \<and> (attempts r + 1 < maxAttempts r \<longrightarrow> status (fst ?res ! i) = PENDING)
        \<and> (maxAttempts r \<le> attempts r + 1 \<longrightarrow>
              status (fst ?res ! i) = FAILED
              \<and> (\<forall>calls. status (otpRun rt senders (fst ?res) calls ! i) = FAILED))"
    using l by blast
  have 3: "(\<forall>j < length tbl. j \<noteq> i \<longrightarrow> \<not> isPendingFor acc ?ph (tbl ! j))
         \<and> (verifyCode rt (toUpperCase rt code) (codeHash r) \<or> maxAttempts r \<le> attempts r + 1) \<longrightarrow>
        (\<forall>calls ph' code' t1' t2' answers'.
            (\<forall>c \<in> set calls. \<not> storesFor acc ?ph c) \<and> normalizePhoneNumber ph' = ?ph \<longrightarrow>
            snd (verifyOTP rt answers' (otpRun rt senders (fst ?res) calls) acc
                   \<lparr>vr_phone = ph', vr_code = code'\<rparr> t1' t2')
            = verifyFailure ?ph NoActiveOTPFound)"
  proof (intro impI allI)
    fix calls ph' code' t1' t2' answers'
    assume a: "(\<forall>j < length tbl. j \<noteq> i \<longrightarrow> \<not> isPendingFor acc ?ph (tbl ! j))
         \<and> (verifyCode rt (toUpperCase rt code) (codeHash r) \<or> maxAttempts r \<le> attempts r + 1)"
      and b: "(\<forall>c \<in> set calls. \<not> storesFor acc ?ph c) \<and> normalizePhoneNumber ph' = ?ph"
    have "noPending (fst ?res) acc ?ph" using l a by blast
    then show "snd (verifyOTP rt answers' (otpRun rt senders (fst ?res) calls) acc
                   \<lparr>vr_phone = ph', vr_code = code'\<rparr> t1' t2')
            = verifyFailure ?ph NoActiveOTPFound"
      using later b by blast
  qed
  show ?thesis using 1 2 3 down by blast
qed

theorem verifyOTP_lifecycle_witness:
  "success (snd (verifyOTP sampleRuntime True [sampleRow] (str ''acct1'')
                   \<lparr>vr_phone = samplePhone, vr_code = str ''ab12cd''\<rparr> 1000 1001))
   \<and> status (fst (verifyOTP sampleRuntime True [sampleRow] (str ''acct1'')
                   \<lparr>vr_phone = samplePhone, vr_code = str ''ab12cd''\<rparr> 1000 1001) ! 0) = VERIFIED
   \<and> snd (verifyOTP sampleRuntime True
             (otpRun sampleRuntime []
                (fst (verifyOTP sampleRuntime True [sampleRow] (str ''acct1'')
                        \<lparr>vr_phone = samplePhone, vr_code = str ''ab12cd''\<rparr> 1000 1001))
                [Verify (str ''acct1'') \<lparr>vr_phone = samplePhone, vr_code = str ''000000''\<rparr> 1500 1501 True])
             (str ''acct1'') \<lparr>vr_phone = samplePhone, vr_code = str ''AB12CD''\<rparr> 2000 2001)
       = verifyFailure (normalizePhoneNumber samplePhone) NoActiveOTPFound
   \<and> status (fst (verifyOTP sampleRuntime True [sampleRow\<lparr>attempts := 1\<rparr>] (str ''acct1'')
                   \<lparr>vr_phone = samplePhone, vr_code = str ''000000''\<rparr> 1000 1001) ! 0) = FAILED
   \<and> attempts (fst (verifyOTP sampleRuntime True [sampleRow\<lparr>attempts := 1\<rparr>] (str ''acct1'')
                   \<lparr>vr_phone = samplePhone, vr_code = str ''000000''\<rparr> 1000 1001) ! 0) = 2
   \<and> status (otpRun sampleRuntime []
                (fst (verifyOTP sampleRuntime True [sampleRow\<lparr>attempts := 1\<rparr>] (str ''acct1'')
                        \<lparr>vr_phone = samplePhone, vr_code = str ''000000''\<rparr> 1000 1001))
                [Request (str ''acct1'') sampleRequest 60000 (\<lambda>i. 0) True True] ! 0) = FAILED
   \<and> verifyOTP sampleRuntime False [sampleRow] (str ''acct1'')
        \<lparr>vr_phone = samplePhone, vr_code = str ''ab12cd''\<rparr> 1000 1001
       = ([sampleRow], verifyFailure (normalizePhoneNumber samplePhone) NoActiveOTPFound)"
proof -
  let ?later = "[Verify (str ''acct1'') \<lparr>vr_phone = samplePhone, vr_code = str ''000000''\<rparr> 1500 1501 True]"
  let ?req = "[Request (str ''acct1'') sampleRequest 60000 (\<lambda>i. 0) True True]"
  have row: "0 < length [sampleRow]" "[sampleRow] ! 0 = sampleRow"
    "0 < length [sampleRow\<lparr>attempts := 1\<rparr>]"
    "[sampleRow\<lparr>attempts := 1\<rparr>] ! 0 = sampleRow\<lparr>attempts := 1\<rparr>"
    by simp_all
  have pair: "accountId sampleRow = str ''acct1''"
    "recipient sampleRow = normalizePhoneNumber samplePhone"
    "accountId (sampleRow\<lparr>attempts := 1\<rparr>) = str ''acct1''"
    "recipient (sampleRow\<lparr>attempts := 1\<rparr>) = normalizePhoneNumber samplePhone"
    by code_simp+
  have pending: "status sampleRow = PENDING" "status (sampleRow\<lparr>attempts := 1\<rparr>) = PENDING"
    by (simp_all add: sampleRow_def)
  have fresh: "1000 < expiresAt sampleRow" "\<not> isExpired 1001 (expiresAt sampleRow)"
    "1000 < expiresAt (sampleRow\<lparr>attempts := 1\<rparr>)"
    "\<not> isExpired 1001 (expiresAt (sampleRow\<lparr>attempts := 1\<rparr>))"
    by (simp_all add: isExpired_def sampleRow_def)
  have att: "attempts sampleRow < maxAttempts sampleRow"
    "attempts (sampleRow\<lparr>attempts := 1\<rparr>) < maxAttempts (sampleRow\<lparr>attempts := 1\<rparr>)"
    by (simp_all add: sampleRow_def)
  have newest: "\<forall>j < length [sampleRow].
       j \<noteq> 0 \<and> isPendingFor (str ''acct1'') (normalizePhoneNumber samplePhone) ([sampleRow] ! j)
         \<and> 1000 < expiresAt ([sampleRow] ! j)
       \<longrightarrow> createdAt ([sampleRow] ! j) < createdAt sampleRow"
    "\<forall>j < length [sampleRow\<lparr>attempts := 1\<rparr>].
       j \<noteq> 0 \<and> isPendingFor (str ''acct1'') (normalizePhoneNumber samplePhone) ([sampleRow\<lparr>attempts := 1\<rparr>] ! j)
         \<and> 1000 < expiresAt ([sampleRow\<lparr>attempts := 1\<rparr>] ! j)
       \<longrightarrow> createdAt ([sampleRow\<lparr>attempts := 1\<rparr>] ! j) < createdAt (sampleRow\<lparr>attempts := 1\<rparr>)"
    by simp_all
  have only: "\<forall>j < length [sampleRow].
       j \<noteq> 0 \<longrightarrow> \<not> isPendingFor (str ''acct1'') (normalizePhoneNumber samplePhone) ([sampleRow] ! j)"
    by simp
  have good: "verifyCode sampleRuntime (toUpperCase sampleRuntime (str ''ab12cd'')) (codeHash sampleRow)"
    by code_simp
  have bad: "\<not> verifyCode sampleRuntime (toUpperCase sampleRuntime (str ''000000''))
                 (codeHash (sampleRow\<lparr>attempts := 1\<rparr>))"
    by code_simp
  have lim: "maxAttempts (sampleRow\<lparr>attempts := 1\<rparr>) \<le> attempts (sampleRow\<lparr>attempts := 1\<rparr>) + 1"
    by (simp add: sampleRow_def)
  have quiet: "(\<forall>c \<in> set ?later. \<not> storesFor (str ''acct1'') (normalizePhoneNumber samplePhone) c)
               \<and> normalizePhoneNumber samplePhone = normalizePhoneNumber samplePhone"
    by simp
  note a = verifyOTP_lifecycle [OF row(1,2) pair(1,2) pending(1) fresh(1,2) att(1) newest(1),
      of sampleRuntime "str ''ab12cd''" "[]"]
  note b = verifyOTP_lifecycle [OF row(3,4) pair(3,4) pending(2) fresh(3,4) att(2) newest(2),
      of sampleRuntime "str ''000000''" "[]"]
  have a1: "success (snd (verifyOTP sampleRuntime True [sampleRow] (str ''acct1'')
                   \<lparr>vr_phone = samplePhone, vr_code = str ''ab12cd''\<rparr> 1000 1001))"
    and a2: "status (fst (verifyOTP sampleRuntime True [sampleRow] (str ''acct1'')
                   \<lparr>vr_phone = samplePhone, vr_code = str ''ab12cd''\<rparr> 1000 1001) ! 0) = VERIFIED"
    using a good by blast+
  have a3: "snd (verifyOTP sampleRuntime True
             (otpRun sampleRuntime []
                (fst (verifyOTP sampleRuntime True [sampleRow] (str ''acct1'')
                        \<lparr>vr_phone = samplePhone, vr_code = str ''ab12cd''\<rparr> 1000 1001)) ?later)
             (str ''acct1'') \<lparr>vr_phone = samplePhone, vr_code = str ''AB12CD''\<rparr> 2000 2001)
       = verifyFailure (normalizePhoneNumber samplePhone) NoActiveOTPFound"
    using a good only quiet by blast
  have a4: "verifyOTP sampleRuntime False [sampleRow] (str ''acct1'')
        \<lparr>vr_phone = samplePhone, vr_code = str ''ab12cd''\<rparr> 1000 1001
       = ([sampleRow], verifyFailure (normalizePhoneNumber samplePhone) NoActiveOTPFound)"
    using a by blast
  have b1: "status (fst (verifyOTP sampleRuntime True [sampleRow\<lparr>attempts := 1\<rparr>] (str ''acct1'')
                   \<lparr>vr_phone = samplePhone, vr_code = str ''000000''\<rparr> 1000 1001) ! 0) = FAILED"
    using b bad lim by blast
  have b2: "attempts (fst (verifyOTP sampleRuntime True [sampleRow\<lparr>attempts := 1\<rparr>] (str ''acct1'')
                   \<lparr>vr_phone = samplePhone, vr_code = str ''000000''\<rparr> 1000 1001) ! 0)
            = attempts (sampleRow\<lparr>attempts := 1\<rparr>) + 1"
    using b bad by blast
  have b3: "status (otpRun sampleRuntime []
                (fst (verifyOTP sampleRuntime True [sampleRow\<lparr>attempts := 1\<rparr>] (str ''acct1'')
                        \<lparr>vr_phone = samplePhone, vr_code = str ''000000''\<rparr> 1000 1001)) ?req ! 0) = FAILED"
    using b bad lim by blast
  show ?thesis using a1 a2 a3 a4 b1 b2 b3 by (simp add: sampleRow_def)
qed

text \<open>
  C3 as stated fails in three ways. After a successful verification and a new request a
  minute later, a verification for the pair with the new code succeeds: later calls do
  not all answer that there is no active OTP. Of two PENDING rows of a pair, which two
  requests of the account \<open>a_b\<close> leave under \<open>a\<close>, \<open>verifyOTP\<close> looks at the newer one only:
  the older row is PENDING, not expired and has attempts left, and its own code is
  refused. And when the table does not answer, the matching code of the only PENDING row
  gets the answer that there is no active OTP, and the row stays PENDING.
\<close>

theorem verifyOTP_later_call_succeeds:
  "success (snd (verifyOTP sampleRuntime True [sampleRow] (str ''acct1'')
                   \<lparr>vr_phone = samplePhone, vr_code = str ''AB12CD''\<rparr> 1000 1001))
   \<and> success (snd (verifyOTP sampleRuntime True
        (otpRun sampleRuntime []
           (fst (verifyOTP sampleRuntime True [sampleRow] (str ''acct1'')
                   \<lparr>vr_phone = samplePhone, vr_code = str ''AB12CD''\<rparr> 1000 1001))
           [Request (str ''acct1'') sampleRequest 60000 (\<lambda>i. 0) True True])
        (str ''acct1'') \<lparr>vr_phone = samplePhone, vr_code = str ''AAAAAA''\<rparr> 61000 61001))
   \<and> map (\<lambda>r. (accountId r, recipient r, status r, codeHash r, attempts r < maxAttempts r, 2001 < expiresAt r))
        (otpRun sampleRuntime [] []
           [Request (str ''a_b'') sampleRequest 0 (\<lambda>i. 0) True True,
            Request (str ''a_b'') sampleRequest 1000 (\<lambda>i. 1 / 2) True True])
      = [(str ''a'', samplePhone, PENDING, str ''AAAAAA'', True, True),
         (str ''a'', samplePhone, PENDING, str ''NNNNNN'', True, True)]
   \<and> verifyCode sampleRuntime (toUpperCase sampleRuntime (str ''AAAAAA'')) (str ''AAAAAA'')
   \<and> \<not> success (snd (verifyOTP sampleRuntime True
        (otpRun sampleRuntime [] []
           [Request (str ''a_b'') sampleRequest 0 (\<lambda>i. 0) True True,
            Request (str ''a_b'') sampleRequest 1000 (\<lambda>i. 1 / 2) True True])
        (str ''a'') \<lparr>vr_phone = samplePhone, vr_code = str ''AAAAAA''\<rparr> 2000 2001))
   \<and> map status (fst (verifyOTP sampleRuntime True
        (otpRun sampleRuntime [] []
           [Request (str ''a_b'') sampleRequest 0 (\<lambda>i. 0) True True,
            Request (str ''a_b'') sampleRequest 1000 (\<lambda>i. 1 / 2) True True])
        (str ''a'') \<lparr>vr_phone = samplePhone, vr_code = str ''AAAAAA''\<rparr> 2000 2001))
      = [PENDING, PENDING]
   \<and> verifyOTP sampleRuntime False [sampleRow] (str ''acct1'')
        \<lparr>vr_phone = samplePhone, vr_code = str ''AB12CD''\<rparr> 1000 1001
      = ([sampleRow], verifyFailure samplePhone NoActiveOTPFound)"
  by code_simp

text \<open>
  C4 at two requests of the account \<open>a_b\<close> for one phone, one second apart. \<open>storeOTP\<close>
  files each new row under \<open>a\<close>, the part of \<open>accountId_phone\<close> before the first
  underscore, where neither \<open>invalidatePendingOTPs\<close> nor \<open>checkRateLimit\<close>, which look
  under \<open>a_b\<close>, finds it: the second request is not held back by the cooldown, and the
  table then holds two PENDING rows of the pair of \<open>a\<close> and the phone. For account ids
  without an underscore, calls that follow one another keep at most one PENDING row for
  each pair (\<open>otpRun_single_pending\<close>), and the rows that a request or a resend finds
  are, once its new row is stored, the table after \<open>invalidatePendingOTPs\<close>
  (\<open>requestOTP_take\<close>, \<open>resendOTP_take\<close>), which holds no PENDING row of the pair
  (\<open>pendingFor_invalidate_same\<close>).
\<close>

theorem otp_two_pending_underscore:
  "map (\<lambda>r. (accountId r, recipient r, status r))
     (otpRun sampleRuntime [] []
        [Request (str ''a_b'') sampleRequest 0 (\<lambda>i. 0) True True,
         Request (str ''a_b'') sampleRequest 1000 (\<lambda>i. 1 / 2) True True])
   = [(str ''a'', samplePhone, PENDING), (str ''a'', samplePhone, PENDING)]
   \<and> length (pendingFor
       (otpRun sampleRuntime [] []
          [Request (str ''a_b'') sampleRequest 0 (\<lambda>i. 0) True True,
           Request (str ''a_b'') sampleRequest 1000 (\<lambda>i. 1 / 2) True True])
       (str ''a'') samplePhone) = 2"
  by code_simp

text \<open>
  C5 at a request for a six-letter alphabetic code followed, a minute later, by a resend:
  the request sends \<open>AAAAAA\<close> and the resend, with the same draws, sends \<open>000000\<close>. The
  resend keeps the code length and the attempt limit of the last row
  (\<open>resendOTP_shape\<close>) and draws from the digits whatever the request's pin type was.
\<close>

theorem resendOTP_numeric_after_alphabetic:
  "map_option sms_code (fst (snd (requestOTP sampleRuntime [] (\<lambda>i. 0) True True [] (str ''acct1'') sampleRequest 0)))
     = Some (str ''AAAAAA'')
   \<and> map_option sms_code (fst (snd (resendOTP sampleRuntime [] (\<lambda>i. 0) True True
        (fst (requestOTP sampleRuntime [] (\<lambda>i. 0) True True [] (str ''acct1'') sampleRequest 0))
        (str ''acct1'') samplePhone 60000)))
     = Some (str ''000000'')"
  by code_simp

section \<open>Properties of pricing\<close>



lemma getPricing_total:
  "totalCost (getPricing rates now1 now2 cty net mt n)
   = timesNumber (ratePerUnit (getPricing rates now1 now2 cty net mt n)) (of_nat n)"
  by (simp add: getPricing_def defaultPricing_def split: option.split prod.split)

lemma getPricing_default:
  "rates = None \<or> (\<exists>rows. rates = Some rows \<and> (\<forall>r \<in> set rows. \<not> pricingWhere now1 now2 cty net mt r))
   \<Longrightarrow> getPricing rates now1 now2 cty net mt n = defaultPricing cty net n"
proof (cases rates)
  case None
  then show ?thesis by (simp add: getPricing_def)
next
  case (Some rows)
  assume "rates = None \<or> (\<exists>rows. rates = Some rows \<and> (\<forall>r \<in> set rows. \<not> pricingWhere now1 now2 cty net mt r))"
  then have "\<forall>r \<in> set rows. \<not> pricingWhere now1 now2 cty net mt r" using Some by simp
  then have "findFirstDesc pr_effectiveFrom (pricingWhere now1 now2 cty net mt) rows = None"
    by (simp add: findFirstDesc_None)
  then show ?thesis using Some by (simp add: getPricing_def)
qed

lemma getPricing_found:
  assumes "rates = Some rows" "\<exists>r \<in> set rows. pricingWhere now1 now2 cty net mt r"
  shows "\<exists>r \<in> set rows. pricingWhere now1 now2 cty net mt r
            \<and> (\<forall>r' \<in> set rows. pricingWhere now1 now2 cty net mt r' \<longrightarrow> pr_effectiveFrom r' \<le> pr_effectiveFrom r)
            \<and> ratePerUnit (getPricing rates now1 now2 cty net mt n) = pr_ratePerUnit r
            \<and> currency (getPricing rates now1 now2 cty net mt n) = pr_currency r"
proof -
  have "findFirstDesc pr_effectiveFrom (pricingWhere now1 now2 cty net mt) rows \<noteq> None"
    using assms(2) by (simp add: findFirstDesc_None)
  then obtain i r where f: "findFirstDesc pr_effectiveFrom (pricingWhere now1 now2 cty net mt) rows = Some (i, r)"
    by auto
  have 1: "r \<in> set rows \<and> pricingWhere now1 now2 cty net mt r"
    using findFirstDesc_Some [OF f] by auto
  have 2: "\<forall>r' \<in> set rows. pricingWhere now1 now2 cty net mt r' \<longrightarrow> pr_effectiveFrom r' \<le> pr_effectiveFrom r"
    using findFirstDesc_max [OF f] .
  have 3: "ratePerUnit (getPricing rates now1 now2 cty net mt n) = pr_ratePerUnit r
            \<and> currency (getPricing rates now1 now2 cty net mt n) = pr_currency r"
    using f assms(1) by (simp add: getPricing_def)
  show ?thesis using 1 2 3 by blast
qed

text \<open>
  C2 at a message of three units to the Ghanaian MTN number \<open>+233244123456\<close>, with one
  rate in the table: the country-wide rate of 0.05 for Ghana, which has no network. The
  route \<open>/send\<close> estimates the cost with \<open>getPricing(country, undefined, 'SMS', units)\<close>
  and gets the country-wide rate. \<open>sendSMS\<close> prices the same message with
  \<open>getPricing(routing.country, routing.network, MessageType.SMS, units)\<close>, where the
  network is \<open>mtn\<close>: the one query asks for a row of that network, finds none, and
  nothing looks for the country-wide row afterwards, so the fallback of 0.035 is
  returned. The total cost is the product of the rate and the units in double
  arithmetic. What \<open>getPricing\<close> returns otherwise is in \<open>getPricing_total\<close>,
  \<open>getPricing_default\<close> and \<open>getPricing_found\<close>.
\<close>

theorem getPricing_skips_country_default:
  "getCountryFromPhone (formatted (validatePhoneNumber samplePhone)) = str ''GH''
   \<and> rt_country (routeMessage sampleWorld 1500 1501 (formatted (validatePhoneNumber samplePhone)) SMS) = str ''GH''
   \<and> rt_network (routeMessage sampleWorld 1500 1501 (formatted (validatePhoneNumber samplePhone)) SMS)
       = Some (str ''mtn'')
   \<and> w_rates sampleWorld = Some [sampleRate None (roundDouble (5 / 100))]
   \<and> getPricing (w_rates sampleWorld) 1000 1001 (str ''GH'') None SMS 3
       = \<lparr>p_country = str ''GH'', p_network = None, ratePerUnit = roundDouble (5 / 100),
          currency = str ''GHS'', p_units = 3,
          totalCost = timesNumber (roundDouble (5 / 100)) 3\<rparr>
   \<and> getPricing (w_rates sampleWorld) 2000 2001 (str ''GH'') (Some (str ''mtn'')) SMS 3
       = \<lparr>p_country = str ''GH'', p_network = Some (str ''mtn''), ratePerUnit = roundDouble (35 / 1000),
          currency = str ''GHS'', p_units = 3,
          totalCost = timesNumber (roundDouble (35 / 1000)) 3\<rparr>
   \<and> roundDouble (35 / 1000) < roundDouble (5 / 100)"
  by code_simp

section \<open>Properties of provider selection\<close>









lemma ratOr_zero [simp]: "ratOr x 0 = x"
  by (simp add: ratOr_def)








section \<open>Properties of bulk sending\<close>

lemma processRecipient_fails:
  assumes "recipientFails w createFails acc sender batch request k rc"
  shows "processRecipient w createFails acc sender batch request k tbl costs rc
         = (tbl, fst (snd (processRecipient w createFails acc sender batch request k tbl costs rc)), costs)
    \<and> l_status (fst (snd (processRecipient w createFails acc sender batch request k tbl costs rc))) = Rejected
    \<and> l_id (fst (snd (processRecipient w createFails acc sender batch request k tbl costs rc))) = None
    \<and> l_to (fst (snd (processRecipient w createFails acc sender batch request k tbl costs rc))) = r_to rc"
  using assms
  by (auto simp add: recipientFails_def processRecipient_def rejectedLine_def Let_def
        split: option.splits)

lemma processRecipient_passes:
  assumes "\<not> recipientFails w createFails acc sender batch request k rc"
  shows "\<exists>row line.
      processRecipient w createFails acc sender batch request k tbl costs rc
        = (tbl @ [row], line, plusNumber costs (m_totalCost row))
    \<and> m_batchId row = Some batch \<and> m_accountId row = acc
    \<and> l_status line = Accepted \<and> l_id line = Some (length tbl)"
  using assms
  by (auto simp add: recipientFails_def processRecipient_def bulkMessageRow_def roundPricing_def Let_def
        split: option.splits)

lemma bulkLoop_shape:
  "\<exists>lines new.
     bulkLoop w createFails acc sender batch request k rcs (tbl, results, costs)
       = (tbl @ new, results @ lines, foldl plusNumber costs (map m_totalCost new))
     \<and> map l_status lines
         = map (\<lambda>(j, rc). outcome w createFails acc sender batch request j rc) (enumerate k rcs)
     \<and> length new
         = length (filter (\<lambda>(j, rc). \<not> recipientFails w createFails acc sender batch request j rc) (enumerate k rcs))
     \<and> (\<forall>m \<in> set new. m_batchId m = Some batch \<and> m_accountId m = acc)"
proof (induction rcs arbitrary: k tbl results costs)
  case Nil
  show ?case by (rule exI [of _ "[]"], rule exI [of _ "[]"]) simp
next
  case (Cons rc rcs)
  let ?p = "processRecipient w createFails acc sender batch request k tbl costs rc"
  obtain tbl1 line costs1 where p: "?p = (tbl1, line, costs1)" by (cases ?p) auto
  obtain lines new where ih:
    "bulkLoop w createFails acc sender batch request (Suc k) rcs (tbl1, results @ [line], costs1)
       = (tbl1 @ new, (results @ [line]) @ lines, foldl plusNumber costs1 (map m_totalCost new))"
    "map l_status lines
       = map (\<lambda>(j, rc). outcome w createFails acc sender batch request j rc) (enumerate (Suc k) rcs)"
    "length new
       = length (filter (\<lambda>(j, rc). \<not> recipientFails w createFails acc sender batch request j rc) (enumerate (Suc k) rcs))"
    "\<forall>m \<in> set new. m_batchId m = Some batch \<and> m_accountId m = acc"
    using Cons.IH [of "Suc k" tbl1 "results @ [line]" costs1] by blast
  show ?case
  proof (cases "recipientFails w createFails acc sender batch request k rc")
    case True
    have f: "tbl1 = tbl" "l_status line = Rejected" "costs1 = costs"
      using processRecipient_fails [OF True, of tbl costs] p by simp_all
    show ?thesis
      by (rule exI [of _ "line # lines"], rule exI [of _ new])
         (use p ih f True in \<open>simp add: outcome_def\<close>)
  next
    case False
    obtain row where r: "tbl1 = tbl @ [row]" "m_batchId row = Some batch" "m_accountId row = acc"
      "l_status line = Accepted" "costs1 = plusNumber costs (m_totalCost row)"
      using processRecipient_passes [OF False, of tbl costs] p by auto
    show ?thesis
      by (rule exI [of _ "line # lines"], rule exI [of _ "row # new"])
         (use p ih r False in \<open>simp add: outcome_def\<close>)
  qed
qed

lemma filter_status_count:
  "map l_status lines = map f rcs \<Longrightarrow>
   length (filter (\<lambda>r. l_status r = s) lines) = length (filter (\<lambda>rc. f rc = s) rcs)"
proof (induction lines arbitrary: rcs)
  case Nil
  then show ?case by simp
next
  case (Cons l lines)
  then obtain rc rcs' where r: "rcs = rc # rcs'" by (cases rcs) auto
  then have "map l_status lines = map f rcs'" "l_status l = f rc" using Cons.prems by simp_all
  then show ?case using Cons.IH [of rcs'] r by simp
qed

lemma recipientFails_iff:
  "recipientFails w createFails acc sender batch request k rc \<longleftrightarrow>
     recipientMessage request rc = None
     \<or> (\<exists>m. recipientMessage request rc = Some m \<and> finalMessageOf w m rc = None)
     \<or> \<not> valid (validatePhoneNumber (r_to rc))
     \<or> rt_provider (roundRoute w k (formatted (validatePhoneNumber (r_to rc)))) = None
     \<or> (\<exists>m finalMessage prov.
           recipientMessage request rc = Some m \<and> finalMessageOf w m rc = Some finalMessage
           \<and> valid (validatePhoneNumber (r_to rc))
           \<and> rt_provider (roundRoute w k (formatted (validatePhoneNumber (r_to rc)))) = Some prov
           \<and> createFails
                (bulkMessageRow acc sender batch (formatted (validatePhoneNumber (r_to rc)))
                   finalMessage (calculateMessageUnits finalMessage)
                   (roundRoute w k (formatted (validatePhoneNumber (r_to rc))))
                   (roundPricing w k (roundRoute w k (formatted (validatePhoneNumber (r_to rc))))
                      (units (calculateMessageUnits finalMessage)))
                   prov))"
  by (auto simp add: recipientFails_def split: option.splits)

lemma sendBulkSMS_returns:
  assumes "smsResolveSenderId senders acc (b_senderId request) = Inr sender"
  shows "\<exists>resp tbl' new.
      sendBulkSMS w createFails senders batch tbl acc request = Inr (resp, tbl')
      \<and> totalRecipients resp = length (recipients request)
      \<and> length (resp_messages resp) = length (recipients request)
      \<and> map l_status (resp_messages resp)
          = map (\<lambda>(k, rc). outcome w createFails acc sender batch request k rc) (rounds request)
      \<and> rejected resp
          = length (filter (\<lambda>(k, rc). recipientFails w createFails acc sender batch request k rc) (rounds request))
      \<and> accepted resp = length (recipients request) - rejected resp
      \<and> accepted resp + rejected resp = totalRecipients resp
      \<and> resp_batchId resp = batch
      \<and> tbl' = tbl @ new \<and> length new = accepted resp
      \<and> (\<forall>m \<in> set new. m_batchId m = Some batch \<and> m_accountId m = acc)
      \<and> estimatedCost resp = foldl plusNumber 0 (map m_totalCost new)"
proof -
  let ?rcs = "recipients request"
  let ?en = "rounds request"
  let ?fails = "\<lambda>(k, rc). recipientFails w createFails acc sender batch request k rc"
  let ?out = "\<lambda>(k, rc). outcome w createFails acc sender batch request k rc"
  obtain lines new where l:
    "bulkLoop w createFails acc sender batch request 0 ?rcs (tbl, [], 0)
       = (tbl @ new, [] @ lines, foldl plusNumber 0 (map m_totalCost new))"
    "map l_status lines = map ?out ?en"
    "length new = length (filter (\<lambda>(j, rc). \<not> recipientFails w createFails acc sender batch request j rc) ?en)"
    "\<forall>m \<in> set new. m_batchId m = Some batch \<and> m_accountId m = acc"
    using bulkLoop_shape [of w createFails acc sender batch request 0 ?rcs tbl "[]" 0]
    unfolding rounds_def by blast
  let ?resp = "\<lparr>resp_batchId = batch,
                 totalRecipients = length ?rcs,
                 accepted = length (filter (\<lambda>r. l_status r = Accepted) lines),
                 rejected = length (filter (\<lambda>r. l_status r = Rejected) lines),
                 estimatedCost = foldl plusNumber 0 (map m_totalCost new),
                 resp_currency = str ''GHS'',
                 resp_messages = lines\<rparr>"
  have res: "sendBulkSMS w createFails senders batch tbl acc request = Inr (?resp, tbl @ new)"
    using assms l(1) by (simp add: sendBulkSMS_def)
  have len: "length lines = length ?rcs"
    using l(2) by (metis length_map length_enumerate rounds_def)
  have rej: "length (filter (\<lambda>r. l_status r = Rejected) lines) = length (filter ?fails ?en)"
  proof -
    have "length (filter (\<lambda>r. l_status r = Rejected) lines) = length (filter (\<lambda>x. ?out x = Rejected) ?en)"
      using filter_status_count [OF l(2), of Rejected] .
    also have "(\<lambda>x. ?out x = Rejected) = ?fails" by (auto simp: outcome_def fun_eq_iff)
    finally show ?thesis .
  qed
  have acp: "length (filter (\<lambda>r. l_status r = Accepted) lines) = length (filter (\<lambda>x. \<not> ?fails x) ?en)"
  proof -
    have "length (filter (\<lambda>r. l_status r = Accepted) lines) = length (filter (\<lambda>x. ?out x = Accepted) ?en)"
      using filter_status_count [OF l(2), of Accepted] .
    also have "(\<lambda>x. ?out x = Accepted) = (\<lambda>x. \<not> ?fails x)" by (auto simp: outcome_def fun_eq_iff)
    finally show ?thesis .
  qed
  have sum: "length (filter ?fails ?en) + length (filter (\<lambda>x. \<not> ?fails x) ?en) = length ?rcs"
    using sum_length_filter_compl [of ?fails ?en] by (simp add: rounds_def)
  have new: "length new = length (filter (\<lambda>x. \<not> ?fails x) ?en)"
  proof -
    have "(\<lambda>(j, rc). \<not> recipientFails w createFails acc sender batch request j rc) = (\<lambda>x. \<not> ?fails x)"
      by (auto simp: fun_eq_iff)
    then show ?thesis using l(3) by simp
  qed
  show ?thesis
    apply (rule exI [of _ ?resp], rule exI [of _ "tbl @ new"], rule exI [of _ new])
    using res len rej acp sum new l(2,4) by simp
qed

text \<open>
  C9, as the code has it. \<open>sendBulkSMS\<close> throws exactly what \<open>resolveSenderId\<close> throws
  before the loop: its query throws, or the account has no approved sender id. When the
  sender id resolves, it returns a response, whatever happens to single recipients. The
  response has one line for each recipient, in order, Rejected for those that fail and
  Accepted for the others, so that \<open>rejected\<close> is the number M of failing recipients,
  \<open>accepted\<close> is N - M, and the two add up to \<open>totalRecipients\<close> = N. A recipient fails
  when it has no message, when \<open>replaceVariables\<close> throws on its variables, when its
  phone number fails validation, when routing finds no provider, or when the creation of
  its row throws; when every recipient has a message and neither \<open>replaceVariables\<close> nor
  the creation of a row throws, those that fail are those that fail validation or
  routing. The response carries the batch id generated for the request, and the rows
  created for the accepted recipients, one for each, all carry it; a line of the result
  has no field for the batch id.
\<close>

theorem sendBulkSMS_spec:
  "(\<forall>e. smsResolveSenderId senders acc (b_senderId request) = Inl e \<longrightarrow>
        sendBulkSMS w createFails senders batch tbl acc request = Inl e)
   \<and> (\<forall>sender. smsResolveSenderId senders acc (b_senderId request) = Inr sender \<longrightarrow>
        (\<exists>resp tbl' new.
           sendBulkSMS w createFails senders batch tbl acc request = Inr (resp, tbl')
           \<and> totalRecipients resp = length (recipients request)
           \<and> length (resp_messages resp) = length (recipients request)
           \<and> map l_status (resp_messages resp)
               = map (\<lambda>(k, rc). outcome w createFails acc sender batch request k rc) (rounds request)
           \<and> rejected resp
               = length (filter (\<lambda>(k, rc). recipientFails w createFails acc sender batch request k rc)
                           (rounds request))
           \<and> accepted resp = length (recipients request) - rejected resp
           \<and> accepted resp + rejected resp = totalRecipients resp
           \<and> resp_batchId resp = batch
           \<and> tbl' = tbl @ new \<and> length new = accepted resp
           \<and> (\<forall>m \<in> set new. m_batchId m = Some batch \<and> m_accountId m = acc)
           \<and> estimatedCost resp = foldl plusNumber 0 (map m_totalCost new)))
   \<and> (\<forall>sender k rc.
        recipientFails w createFails acc sender batch request k rc \<longleftrightarrow>
          recipientMessage request rc = None
          \<or> (\<exists>m. recipientMessage request rc = Some m \<and> finalMessageOf w m rc = None)
          \<or> \<not> valid (validatePhoneNumber (r_to rc))
          \<or> rt_provider (roundRoute w k (formatted (validatePhoneNumber (r_to rc)))) = None
          \<or> (\<exists>m finalMessage prov.
                recipientMessage request rc = Some m \<and> finalMessageOf w m rc = Some finalMessage
                \<and> valid (validatePhoneNumber (r_to rc))
                \<and> rt_provider (roundRoute w k (formatted (validatePhoneNumber (r_to rc)))) = Some prov
                \<and> createFails
                     (bulkMessageRow acc sender batch (formatted (validatePhoneNumber (r_to rc)))
                        finalMessage (calculateMessageUnits finalMessage)
                        (roundRoute w k (formatted (validatePhoneNumber (r_to rc))))
                        (roundPricing w k (roundRoute w k (formatted (validatePhoneNumber (r_to rc))))
                           (units (calculateMessageUnits finalMessage)))
                        prov)))
   \<and> (\<forall>sender k rc.
        recipientMessage request rc \<noteq> None
        \<and> (\<forall>m. finalMessageOf w m rc \<noteq> None) \<and> (\<forall>row. \<not> createFails row) \<longrightarrow>
        (recipientFails w createFails acc sender batch request k rc \<longleftrightarrow>
           \<not> valid (validatePhoneNumber (r_to rc))
           \<or> rt_provider (roundRoute w k (formatted (validatePhoneNumber (r_to rc)))) = None))"
proof -
  have 1: "\<forall>e. smsResolveSenderId senders acc (b_senderId request) = Inl e \<longrightarrow>
        sendBulkSMS w createFails senders batch tbl acc request = Inl e"
    by (simp add: sendBulkSMS_def)
  have 2: "\<forall>sender. smsResolveSenderId senders acc (b_senderId request) = Inr sender \<longrightarrow>
        (\<exists>resp tbl' new.
           sendBulkSMS w createFails senders batch tbl acc request = Inr (resp, tbl')
           \<and> totalRecipients resp = length (recipients request)
           \<and> length (resp_messages resp) = length (recipients request)
           \<and> map l_status (resp_messages resp)
               = map (\<lambda>(k, rc). outcome w createFails acc sender batch request k rc) (rounds request)
           \<and> rejected resp
               = length (filter (\<lambda>(k, rc). recipientFails w createFails acc sender batch request k rc)
                           (rounds request))
           \<and> accepted resp = length (recipients request) - rejected resp
           \<and> accepted resp + rejected resp = totalRecipients resp
           \<and> resp_batchId resp = batch
           \<and> tbl' = tbl @ new \<and> length new = accepted resp
           \<and> (\<forall>m \<in> set new. m_batchId m = Some batch \<and> m_accountId m = acc)
           \<and> estimatedCost resp = foldl plusNumber 0 (map m_totalCost new))"
    using sendBulkSMS_returns [of senders acc request _ w createFails batch tbl] by blast
  have 3: "\<forall>sender k rc.
        recipientFails w createFails acc sender batch request k rc \<longleftrightarrow>
          recipientMessage request rc = None
          \<or> (\<exists>m. recipientMessage request rc = Some m \<and> finalMessageOf w m rc = None)
          \<or> \<not> valid (validatePhoneNumber (r_to rc))
          \<or> rt_provider (roundRoute w k (formatted (validatePhoneNumber (r_to rc)))) = None
          \<or> (\<exists>m finalMessage prov.
                recipientMessage request rc = Some m \<and> finalMessageOf w m rc = Some finalMessage
                \<and> valid (validatePhoneNumber (r_to rc))
                \<and> rt_provider (roundRoute w k (formatted (validatePhoneNumber (r_to rc)))) = Some prov
                \<and> createFails
                     (bulkMessageRow acc sender batch (formatted (validatePhoneNumber (r_to rc)))
                        finalMessage (calculateMessageUnits finalMessage)
                        (roundRoute w k (formatted (validatePhoneNumber (r_to rc))))
                        (roundPricing w k (roundRoute w k (formatted (validatePhoneNumber (r_to rc))))
                           (units (calculateMessageUnits finalMessage)))
                        prov))"
    using recipientFails_iff [of w createFails acc _ batch request] by blast
  have 4: "\<forall>sender k rc.
        recipientMessage request rc \<noteq> None
        \<and> (\<forall>m. finalMessageOf w m rc \<noteq> None) \<and> (\<forall>row. \<not> createFails row) \<longrightarrow>
        (recipientFails w createFails acc sender batch request k rc \<longleftrightarrow>
           \<not> valid (validatePhoneNumber (r_to rc))
           \<or> rt_provider (roundRoute w k (formatted (validatePhoneNumber (r_to rc)))) = None)"
  proof (intro allI impI)
    fix sender k rc
    assume a: "recipientMessage request rc \<noteq> None
        \<and> (\<forall>m. finalMessageOf w m rc \<noteq> None) \<and> (\<forall>row. \<not> createFails row)"
    then obtain m where m: "recipientMessage request rc = Some m" by auto
    from a have "finalMessageOf w m rc \<noteq> None" by blast
    then obtain finalMessage where fm: "finalMessageOf w m rc = Some finalMessage" by auto
    from a have c: "\<And>row. \<not> createFails row" by blast
    show "recipientFails w createFails acc sender batch request k rc \<longleftrightarrow>
           \<not> valid (validatePhoneNumber (r_to rc))
           \<or> rt_provider (roundRoute w k (formatted (validatePhoneNumber (r_to rc)))) = None"
      by (simp add: recipientFails_def m fm c split: option.split)
  qed
  show ?thesis using 1 2 3 4 by blast
qed

theorem sendBulkSMS_spec_witness:
  "(\<exists>resp tbl'.
     sendBulkSMS sampleWorld (\<lambda>m. False) (Some sampleSenders) (str ''batch0001'') [] (str ''acct1'') sampleBulk
       = Inr (resp, tbl')
     \<and> totalRecipients resp = 2 \<and> rejected resp = 1 \<and> accepted resp = 1
     \<and> map l_status (resp_messages resp) = [Accepted, Rejected]
     \<and> resp_batchId resp = str ''batch0001''
     \<and> map m_batchId tbl' = [Some (str ''batch0001'')])
   \<and> sendBulkSMS sampleWorld (\<lambda>m. False) None (str ''batch0001'') [] (str ''acct1'') sampleBulk
       = Inl SenderQueryThrew
   \<and> sendBulkSMS sampleWorld (\<lambda>m. False) (Some []) (str ''batch0001'') [] (str ''acct1'') sampleBulk
       = Inl NoApprovedSenderId"
proof -
  let ?sender = "(str ''s1'', str ''Brand'')"
  let ?fails = "\<lambda>(k, rc). recipientFails sampleWorld (\<lambda>m. False) (str ''acct1'') ?sender (str ''batch0001'') sampleBulk k rc"
  let ?out = "\<lambda>(k, rc). outcome sampleWorld (\<lambda>m. False) (str ''acct1'') ?sender (str ''batch0001'') sampleBulk k rc"
  have s: "smsResolveSenderId (Some sampleSenders) (str ''acct1'') (b_senderId sampleBulk) = Inr ?sender"
    by code_simp
  have s0: "smsResolveSenderId None (str ''acct1'') (b_senderId sampleBulk) = Inl SenderQueryThrew"
    by code_simp
  have s1: "smsResolveSenderId (Some []) (str ''acct1'') (b_senderId sampleBulk) = Inl NoApprovedSenderId"
    by code_simp
  have n: "length (recipients sampleBulk) = 2" by code_simp
  have f: "length (filter ?fails (rounds sampleBulk)) = 1"
    by code_simp
  have o: "map ?out (rounds sampleBulk) = [Accepted, Rejected]"
    by code_simp
  note t = sendBulkSMS_spec [of "Some sampleSenders" "str ''acct1''" sampleBulk sampleWorld "\<lambda>m. False"
      "str ''batch0001''" "[]"]
  obtain resp tbl' new where r:
    "sendBulkSMS sampleWorld (\<lambda>m. False) (Some sampleSenders) (str ''batch0001'') [] (str ''acct1'') sampleBulk
       = Inr (resp, tbl')"
    "totalRecipients resp = length (recipients sampleBulk)"
    "map l_status (resp_messages resp) = map ?out (rounds sampleBulk)"
    "rejected resp = length (filter ?fails (rounds sampleBulk))"
    "accepted resp = length (recipients sampleBulk) - rejected resp"
    "resp_batchId resp = str ''batch0001''"
    "tbl' = [] @ new" "length new = accepted resp"
    "\<forall>m \<in> set new. m_batchId m = Some (str ''batch0001'') \<and> m_accountId m = str ''acct1''"
    using t s by blast
  have w: "length new = 1" using r(4,5,8) n f by simp
  then obtain m where "new = [m]" by (cases new) auto
  then have b: "map m_batchId tbl' = [Some (str ''batch0001'')]" using r(7,9) by simp
  have a: "\<exists>resp tbl'.
     sendBulkSMS sampleWorld (\<lambda>m. False) (Some sampleSenders) (str ''batch0001'') [] (str ''acct1'') sampleBulk
       = Inr (resp, tbl')
     \<and> totalRecipients resp = 2 \<and> rejected resp = 1 \<and> accepted resp = 1
     \<and> map l_status (resp_messages resp) = [Accepted, Rejected]
     \<and> resp_batchId resp = str ''batch0001''
     \<and> map m_batchId tbl' = [Some (str ''batch0001'')]"
    using r(1,2,3,4,5,6) n f o b by auto
  have d: "sendBulkSMS sampleWorld (\<lambda>m. False) None (str ''batch0001'') [] (str ''acct1'') sampleBulk
       = Inl SenderQueryThrew"
    using sendBulkSMS_spec [of None "str ''acct1''" sampleBulk sampleWorld "\<lambda>m. False"
      "str ''batch0001''" "[]"] s0 by blast
  have e: "sendBulkSMS sampleWorld (\<lambda>m. False) (Some []) (str ''batch0001'') [] (str ''acct1'') sampleBulk
       = Inl NoApprovedSenderId"
    using sendBulkSMS_spec [of "Some []" "str ''acct1''" sampleBulk sampleWorld "\<lambda>m. False"
      "str ''batch0001''" "[]"] s1 by blast
  show ?thesis using a d e by blast
qed

text \<open>
  C9 as stated fails: a recipient that passes validation and routing is rejected all the
  same when the creation of its row throws, and when \<open>replaceVariables\<close> throws on its
  variables. In both requests below N is 1 and no recipient fails validation or routing,
  yet \<open>rejected\<close> is 1 and \<open>accepted\<close> is 0.
\<close>

theorem sendBulkSMS_rejects_routable:
  "valid (validatePhoneNumber samplePhone)
   \<and> map_option pi_name (rt_provider (roundRoute sampleWorld 0 (formatted (validatePhoneNumber samplePhone))))
       = Some (str ''P1'')
   \<and> sendBulkSMS sampleWorld (\<lambda>m. True) (Some sampleSenders) (str ''batch0001'') [] (str ''acct1'')
       \<lparr>recipients = [\<lparr>r_to = samplePhone, r_message = None, r_variables = None\<rparr>],
        b_message = Some (str ''Hello''), b_senderId = None\<rparr>
     = Inr (\<lparr>resp_batchId = str ''batch0001'', totalRecipients = 1, accepted = 0, rejected = 1,
             estimatedCost = 0, resp_currency = str ''GHS'',
             resp_messages = [rejectedLine samplePhone Caught]\<rparr>, [])
   \<and> sendBulkSMS (sampleWorld\<lparr>w_replaceVariables := (\<lambda>m vars. None)\<rparr>) (\<lambda>m. False) (Some sampleSenders)
       (str ''batch0001'') [] (str ''acct1'')
       \<lparr>recipients = [\<lparr>r_to = samplePhone, r_message = None, r_variables = Some [(str ''('', str ''x'')]\<rparr>],
        b_message = Some (str ''Hello''), b_senderId = None\<rparr>
     = Inr (\<lparr>resp_batchId = str ''batch0001'', totalRecipients = 1, accepted = 0, rejected = 1,
             estimatedCost = 0, resp_currency = str ''GHS'',
             resp_messages = [rejectedLine samplePhone Caught]\<rparr>, [])"
  by code_simp

end
